theory Spec2Isabelle
  imports Complex_Main "HOL-Library.Word" "HOL-Library.Multiset"
begin

unbundle bit_operations_syntax

section \<open>Conventions\<close>

text \<open>
  A shallow embedding of the acoustic simulation core of AcoustiTrace Pro
  (\<^verbatim>\<open>AcousticEngineSubsystem.cpp\<close>, \<^verbatim>\<open>AcousticSourceComponent.cpp\<close>,
  \<^verbatim>\<open>AcousticZoneVolume.cpp\<close>, \<^verbatim>\<open>AcousticSubmixEffects.cpp\<close>,
  \<^verbatim>\<open>AcousticTypes.h/.cpp\<close>, \<^verbatim>\<open>AcousticSettings.h\<close>).

  \<^item> \<^verbatim>\<open>float\<close> and \<^verbatim>\<open>double\<close> are idealised as \<^typ>\<open>real\<close>: rounding, NaN and
    infinities are outside the model. Where the source divides by a configured rate, the
    model writes out the case of a zero divisor.
  \<^item> \<^verbatim>\<open>int32\<close> values are \<^typ>\<open>int\<close>. The id counter \<^verbatim>\<open>NextSourceId\<close>, which no setting
    bounds, wraps around on its increment as the \<^verbatim>\<open>int32\<close> does; for the counters that the
    settings bound, the theorems that depend on a range state it.
  \<^item> \<^verbatim>\<open>uint8\<close> flag sets are \<^typ>\<open>8 word\<close>.
  \<^item> A \<^verbatim>\<open>TWeakObjectPtr\<close> is a handle into the host's object store; \<^verbatim>\<open>Get()\<close> is a
    lookup that yields \<open>None\<close> for a null or stale pointer.
  \<^item> A \<^verbatim>\<open>TMap\<close> that the source iterates is an association list in iteration order.
  \<^item> The host engine (ray casts, quaternion rotation, the object store) is a parameter.
\<close>

section \<open>Data model\<close>

subsection \<open>Host engine mathematics\<close>

datatype FVector = FVector (VX: real) (VY: real) (VZ: real)

definition ZeroVector :: FVector where
  "ZeroVector = FVector 0 0 0"

definition UpVector :: FVector where
  "UpVector = FVector 0 0 1"

definition ForwardVector :: FVector where
  "ForwardVector = FVector 1 0 0"

definition RightVector :: FVector where
  "RightVector = FVector 0 1 0"

definition DotProduct :: "FVector \<Rightarrow> FVector \<Rightarrow> real" where
  "DotProduct A B = VX A * VX B + VY A * VY B + VZ A * VZ B"

definition Size :: "FVector \<Rightarrow> real" where
  "Size V = sqrt (VX V * VX V + VY V * VY V + VZ V * VZ V)"

definition Dist :: "FVector \<Rightarrow> FVector \<Rightarrow> real" where
  "Dist A B = sqrt ((VX B - VX A)\<^sup>2 + (VY B - VY A)\<^sup>2 + (VZ B - VZ A)\<^sup>2)"

definition VAdd :: "FVector \<Rightarrow> FVector \<Rightarrow> FVector" where
  "VAdd A B = FVector (VX A + VX B) (VY A + VY B) (VZ A + VZ B)"

definition VScale :: "FVector \<Rightarrow> real \<Rightarrow> FVector" where
  "VScale A s = FVector (VX A * s) (VY A * s) (VZ A * s)"

text \<open>\<^verbatim>\<open>FMath::Clamp(X, Min, Max)\<close>, \<^verbatim>\<open>FMath::Lerp(A, B, Alpha)\<close> and
  \<^verbatim>\<open>FMath::IsNearlyEqual(A, B, Tolerance)\<close> of the host's math library.\<close>

definition FMath_Clamp :: "real \<Rightarrow> real \<Rightarrow> real \<Rightarrow> real" where
  "FMath_Clamp x lo hi = (if x < lo then lo else if x < hi then x else hi)"

definition FMath_Lerp :: "real \<Rightarrow> real \<Rightarrow> real \<Rightarrow> real" where
  "FMath_Lerp A B Alpha = A + Alpha * (B - A)"

definition KINDA_SMALL_NUMBER :: real where
  "KINDA_SMALL_NUMBER = 1 / 10000"

definition FMath_IsNearlyEqual :: "real \<Rightarrow> real \<Rightarrow> real \<Rightarrow> bool" where
  "FMath_IsNearlyEqual A B Tolerance = (\<bar>A - B\<bar> \<le> Tolerance)"

text \<open>\<^verbatim>\<open>FLT_MAX\<close>, the largest finite single-precision value.\<close>

definition FLT_MAX :: real where
  "FLT_MAX = (2 - 1 / 2 ^ 23) * 2 ^ 127"

subsection \<open>Enumerations (AcousticTypes.h)\<close>

datatype EAcousticLOD = Off | Basic | Advanced | Hero

datatype EAcousticImportance = Background | Normal | Important | Critical

datatype EAcousticZoneType =
  ZoneDefault | SmallRoom | LargeRoom | Hallway | Cave | Cathedral | Forest | OpenAir
  | Underwater | ZoneCustom

datatype EAcousticMaterialType =
  Default | Concrete | Wood | Metal | Glass | Fabric | Water | Foliage | Earth | Ice | Custom

text \<open>The enumerators' underlying \<^verbatim>\<open>uint8\<close> values, in declaration order: the source compares
  LODs with \<^verbatim>\<open>>\<close> and casts an importance to an array index.\<close>

fun LOD_value :: "EAcousticLOD \<Rightarrow> nat" where
  "LOD_value Off = 0"
| "LOD_value Basic = 1"
| "LOD_value Advanced = 2"
| "LOD_value Hero = 3"

fun Importance_value :: "EAcousticImportance \<Rightarrow> int" where
  "Importance_value Background = 0"
| "Importance_value Normal = 1"
| "Importance_value Important = 2"
| "Importance_value Critical = 3"

subsection \<open>Structs (AcousticTypes.h)\<close>

record FAcousticMaterial =
  MaterialName :: string
  MaterialType :: EAcousticMaterialType
  LowAbsorption :: real
  MidAbsorption :: real
  HighAbsorption :: real
  Transmission :: real
  Scattering :: real

text \<open>The default member initialisers of \<^verbatim>\<open>FAcousticMaterial\<close>.\<close>

definition FAcousticMaterial_init :: FAcousticMaterial where
  "FAcousticMaterial_init =
     \<lparr> MaterialName = ''None'', MaterialType = Default, LowAbsorption = 0.1,
       MidAbsorption = 0.2, HighAbsorption = 0.3, Transmission = 0, Scattering = 0.1 \<rparr>"

definition GetAverageAbsorption :: "FAcousticMaterial \<Rightarrow> real" where
  "GetAverageAbsorption M = (LowAbsorption M + MidAbsorption M + HighAbsorption M) / 3"

record FReflectionTap =
  DelayMs :: real
  Gain :: real
  LPFCutoff :: real
  Azimuth :: real
  Elevation :: real
  bIsValid :: bool

definition FReflectionTap_init :: FReflectionTap where
  "FReflectionTap_init =
     \<lparr> DelayMs = 0, Gain = 0, LPFCutoff = 20000, Azimuth = 0, Elevation = 0,
       bIsValid = False \<rparr>"

record FEarlyReflectionParams =
  Taps :: "FReflectionTap list"
  ValidTapCount :: int
  AverageDelayMs :: real
  ReflectionDensity :: real

definition MaxTaps :: nat where
  "MaxTaps = 8"

text \<open>The constructor: \<^verbatim>\<open>Taps.SetNum(MaxTaps)\<close> over the default initialisers.\<close>

definition FEarlyReflectionParams_init :: FEarlyReflectionParams where
  "FEarlyReflectionParams_init =
     \<lparr> Taps = replicate MaxTaps FReflectionTap_init, ValidTapCount = 0,
       AverageDelayMs = 0, ReflectionDensity = 0 \<rparr>"

text \<open>\<^verbatim>\<open>FEarlyReflectionParams::Reset\<close>: every element of \<^verbatim>\<open>Taps\<close> is overwritten, the
  array keeps its length.\<close>

definition EarlyReflections_Reset :: "FEarlyReflectionParams \<Rightarrow> FEarlyReflectionParams" where
  "EarlyReflections_Reset P =
     P\<lparr> ValidTapCount := 0, AverageDelayMs := 0, ReflectionDensity := 0,
        Taps := map (\<lambda>Tap. FReflectionTap_init) (Taps P) \<rparr>"

record FAcousticSourceParams =
  Occlusion :: real
  LowPassCutoff :: real
  HighPassCutoff :: real
  TransmissionGain :: real
  ReverbSend :: real
  DryGain :: real
  SpatialWidth :: real
  HRTFSpreadMultiplier :: real
  EarlyReflections :: FEarlyReflectionParams
  Params_Distance :: real
  PerceivedDistance :: real
  LastUpdateFrame :: nat
  Params_bIsValid :: bool

text \<open>\<^verbatim>\<open>FAcousticSourceParams::Reset\<close>.\<close>

definition Params_Reset :: "FAcousticSourceParams \<Rightarrow> FAcousticSourceParams" where
  "Params_Reset P =
     P\<lparr> Occlusion := 0, LowPassCutoff := 20000, HighPassCutoff := 20,
        TransmissionGain := 1, ReverbSend := 0.3, DryGain := 1, SpatialWidth := 0,
        HRTFSpreadMultiplier := 1,
        EarlyReflections := EarlyReflections_Reset (EarlyReflections P),
        Params_Distance := 0, PerceivedDistance := 0, LastUpdateFrame := 0,
        Params_bIsValid := False \<rparr>"

definition FAcousticSourceParams_init :: FAcousticSourceParams where
  "FAcousticSourceParams_init =
     \<lparr> Occlusion = 0, LowPassCutoff = 20000, HighPassCutoff = 20, TransmissionGain = 1,
       ReverbSend = 0.3, DryGain = 1, SpatialWidth = 0, HRTFSpreadMultiplier = 1,
       EarlyReflections = FEarlyReflectionParams_init, Params_Distance = 0,
       PerceivedDistance = 0, LastUpdateFrame = 0, Params_bIsValid = False \<rparr>"

record FAcousticZonePreset =
  PresetName :: string
  ZoneType :: EAcousticZoneType
  RT60 :: real
  HFDecay :: real
  LFDecay :: real
  Density :: real
  Diffusion :: real
  EarlyReflectionLevel :: real
  LateReverbLevel :: real
  PreDelayMs :: real
  RoomSize :: real
  DefaultReverbSend :: real

definition FAcousticZonePreset_init :: FAcousticZonePreset where
  "FAcousticZonePreset_init =
     \<lparr> PresetName = ''None'', ZoneType = ZoneDefault, RT60 = 1, HFDecay = 1, LFDecay = 1,
       Density = 0.5, Diffusion = 0.5, EarlyReflectionLevel = 1, LateReverbLevel = 1,
       PreDelayMs = 10, RoomSize = 1, DefaultReverbSend = 0.3 \<rparr>"

record FAcousticRayHit =
  HitLocation :: FVector
  HitNormal :: FVector
  Distance :: real
  Material :: FAcousticMaterial
  PhysicalMaterialName :: string
  bIsValidHit :: bool

definition FAcousticRayHit_init :: FAcousticRayHit where
  "FAcousticRayHit_init =
     \<lparr> HitLocation = ZeroVector, HitNormal = UpVector, Distance = 0,
       Material = FAcousticMaterial_init, PhysicalMaterialName = ''None'',
       bIsValidHit = False \<rparr>"

record FAcousticListenerData =
  Location :: FVector
  Forward :: FVector
  Up :: FVector
  Right :: FVector
  Velocity :: FVector
  PlayerIndex :: int
  CurrentZoneId :: int

definition FAcousticListenerData_init :: FAcousticListenerData where
  "FAcousticListenerData_init =
     \<lparr> Location = ZeroVector, Forward = ForwardVector, Up = UpVector, Right = RightVector,
       Velocity = ZeroVector, PlayerIndex = 0, CurrentZoneId = - 1 \<rparr>"

subsection \<open>Material catalogue (AcousticTypes.cpp)\<close>

text \<open>\<^verbatim>\<open>FAcousticMaterial::CreateFromType\<close>.\<close>

fun CreateFromType :: "EAcousticMaterialType \<Rightarrow> FAcousticMaterial" where
  "CreateFromType Concrete =
     \<lparr> MaterialName = ''Concrete'', MaterialType = Concrete, LowAbsorption = 0.01,
       MidAbsorption = 0.02, HighAbsorption = 0.02, Transmission = 0, Scattering = 0.05 \<rparr>"
| "CreateFromType Wood =
     \<lparr> MaterialName = ''Wood'', MaterialType = Wood, LowAbsorption = 0.15,
       MidAbsorption = 0.11, HighAbsorption = 0.10, Transmission = 0.05, Scattering = 0.10 \<rparr>"
| "CreateFromType Metal =
     \<lparr> MaterialName = ''Metal'', MaterialType = Metal, LowAbsorption = 0.01,
       MidAbsorption = 0.01, HighAbsorption = 0.02, Transmission = 0, Scattering = 0.02 \<rparr>"
| "CreateFromType Glass =
     \<lparr> MaterialName = ''Glass'', MaterialType = Glass, LowAbsorption = 0.18,
       MidAbsorption = 0.06, HighAbsorption = 0.04, Transmission = 0.3, Scattering = 0.02 \<rparr>"
| "CreateFromType Fabric =
     \<lparr> MaterialName = ''Fabric'', MaterialType = Fabric, LowAbsorption = 0.03,
       MidAbsorption = 0.12, HighAbsorption = 0.35, Transmission = 0.4, Scattering = 0.30 \<rparr>"
| "CreateFromType Water =
     \<lparr> MaterialName = ''Water'', MaterialType = Water, LowAbsorption = 0.01,
       MidAbsorption = 0.01, HighAbsorption = 0.02, Transmission = 0.2, Scattering = 0.50 \<rparr>"
| "CreateFromType Foliage =
     \<lparr> MaterialName = ''Foliage'', MaterialType = Foliage, LowAbsorption = 0.03,
       MidAbsorption = 0.06, HighAbsorption = 0.11, Transmission = 0.8, Scattering = 0.70 \<rparr>"
| "CreateFromType Earth =
     \<lparr> MaterialName = ''Earth'', MaterialType = Earth, LowAbsorption = 0.15,
       MidAbsorption = 0.25, HighAbsorption = 0.40, Transmission = 0, Scattering = 0.40 \<rparr>"
| "CreateFromType Ice =
     \<lparr> MaterialName = ''Ice'', MaterialType = Ice, LowAbsorption = 0.01,
       MidAbsorption = 0.01, HighAbsorption = 0.02, Transmission = 0.1, Scattering = 0.05 \<rparr>"
| "CreateFromType Default =
     \<lparr> MaterialName = ''Default'', MaterialType = Default, LowAbsorption = 0.10,
       MidAbsorption = 0.20, HighAbsorption = 0.30, Transmission = 0, Scattering = 0.10 \<rparr>"
| "CreateFromType Custom =
     \<lparr> MaterialName = ''Default'', MaterialType = Custom, LowAbsorption = 0.10,
       MidAbsorption = 0.20, HighAbsorption = 0.30, Transmission = 0, Scattering = 0.10 \<rparr>"

subsection \<open>Settings (AcousticSettings.h)\<close>

record UAcousticSettings =
  MaxRaysPerFrame :: int
  MaxTraceDistance :: real
  AdvancedReflectionRays :: int
  HeroReflectionRays :: int
  OcclusionUpdateRateHz :: real
  ReflectionUpdateRateHz :: real
  ZoneUpdateRateHz :: real
  OcclusionCacheFrames :: int
  BasicLODDistance :: real
  OffLODDistance :: real
  MaxAdvancedSources :: int
  MaxHeroSources :: int
  RealismFactor :: real

text \<open>The default member initialisers of \<^verbatim>\<open>UAcousticSettings\<close>.\<close>

definition UAcousticSettings_init :: UAcousticSettings where
  "UAcousticSettings_init =
     \<lparr> MaxRaysPerFrame = 200, MaxTraceDistance = 10000, AdvancedReflectionRays = 24,
       HeroReflectionRays = 32, OcclusionUpdateRateHz = 30, ReflectionUpdateRateHz = 15,
       ZoneUpdateRateHz = 20, OcclusionCacheFrames = 5, BasicLODDistance = 3000,
       OffLODDistance = 8000, MaxAdvancedSources = 8, MaxHeroSources = 2,
       RealismFactor = 0.7 \<rparr>"

subsection \<open>Source component (AcousticSourceComponent.h)\<close>

text \<open>The bit masks of \<^verbatim>\<open>EAcousticSourceFlags\<close>.\<close>

datatype EAcousticSourceFlags =
  IsHero | Environmental | UI | AlwaysAudible | NeverOcclude | LargeSource

fun Flag_mask :: "EAcousticSourceFlags \<Rightarrow> 8 word" where
  "Flag_mask IsHero = 1"
| "Flag_mask Environmental = 2"
| "Flag_mask UI = 4"
| "Flag_mask AlwaysAudible = 8"
| "Flag_mask NeverOcclude = 16"
| "Flag_mask LargeSource = 32"

record UAcousticSourceComponent =
  AcousticLOD :: EAcousticLOD
  Importance :: EAcousticImportance
  SourceFlags :: "8 word"
  BaseLoudness :: real
  PriorityOverride :: real
  ComponentLocation :: FVector

definition UAcousticSourceComponent_init :: UAcousticSourceComponent where
  "UAcousticSourceComponent_init =
     \<lparr> AcousticLOD = Advanced, Importance = Normal, SourceFlags = 0, BaseLoudness = 1,
       PriorityOverride = - 1, ComponentLocation = ZeroVector \<rparr>"

definition HasFlag :: "UAcousticSourceComponent \<Rightarrow> EAcousticSourceFlags \<Rightarrow> bool" where
  "HasFlag Source Flag = ((SourceFlags Source AND Flag_mask Flag) \<noteq> 0)"

definition GetAcousticLocation :: "UAcousticSourceComponent \<Rightarrow> FVector" where
  "GetAcousticLocation Source = ComponentLocation Source"

subsection \<open>Zones (AcousticZoneVolume.h)\<close>

text \<open>Of a zone volume the subsystem reads its containment test, its priority, its id and
  its preset.\<close>

record AAcousticZoneVolume =
  ContainsPoint :: "FVector \<Rightarrow> bool"
  Priority :: int
  ZoneId :: int
  ZonePreset :: FAcousticZonePreset

subsection \<open>Host engine\<close>

text \<open>\<^verbatim>\<open>FHitResult\<close> as the subsystem reads it; \<^verbatim>\<open>PhysMaterial\<close> is the physical material's
  name, \<open>None\<close> when the weak pointer is not valid.\<close>

record FHitResult =
  ImpactPoint :: FVector
  ImpactNormal :: FVector
  HitResult_Distance :: real
  PhysMaterial :: "string option"

text \<open>
  What the subsystem asks of the host: \<^verbatim>\<open>GetWorld()\<close> with the world's
  \<^verbatim>\<open>LineTraceSingleByChannel\<close> (\<open>None\<close> as the world when there is none, \<open>None\<close> as the
  trace's result when the ray is clear), the rotation
  \<^verbatim>\<open>FQuat::FindBetweenNormals(A, B).RotateVector\<close>, and the object store against which
  weak pointers to source components are resolved.
\<close>

record Host =
  GetWorld :: "(FVector \<Rightarrow> FVector \<Rightarrow> FHitResult option) option"
  FindBetweenNormals :: "FVector \<Rightarrow> FVector \<Rightarrow> FVector \<Rightarrow> FVector"
  Objects :: "nat \<Rightarrow> UAcousticSourceComponent option"

subsection \<open>Subsystem state (AcousticEngineSubsystem.h)\<close>

record FRayBudgetAllocation =
  OcclusionRays :: int
  ReflectionRays :: int
  TotalRaysUsed :: int
  TotalRaysBudget :: int

record FAcousticSourceEntry =
  SourceComponent :: "nat option"
  SourceId :: int
  CurrentParams :: FAcousticSourceParams
  PreviousParams :: FAcousticSourceParams
  EffectiveLOD :: EAcousticLOD
  PriorityScore :: real
  LastOcclusionUpdateTime :: real
  LastReflectionUpdateTime :: real
  bIsAudible :: bool

definition FAcousticSourceEntry_init :: FAcousticSourceEntry where
  "FAcousticSourceEntry_init =
     \<lparr> SourceComponent = None, SourceId = - 1,
       CurrentParams = FAcousticSourceParams_init,
       PreviousParams = FAcousticSourceParams_init, EffectiveLOD = Basic,
       PriorityScore = 0, LastOcclusionUpdateTime = 0, LastReflectionUpdateTime = 0,
       bIsAudible = True \<rparr>"

record UAcousticEngineSubsystem =
  RegisteredSources :: "(int \<times> FAcousticSourceEntry) list"
  ListenerDataArray :: "FAcousticListenerData list"
  RegisteredZones :: "AAcousticZoneVolume option list"
  MaterialMappings :: "string \<Rightarrow> FAcousticMaterial option"
  CurrentBudget :: FRayBudgetAllocation
  NextSourceId :: int
  OcclusionUpdateAccumulator :: real
  ReflectionUpdateAccumulator :: real
  ZoneUpdateAccumulator :: real

text \<open>The member initialisers, after \<^verbatim>\<open>Initialize\<close> (one listener, the budget read from
  the settings).\<close>

definition Subsystem_init :: "UAcousticSettings \<Rightarrow> UAcousticEngineSubsystem" where
  "Subsystem_init Settings =
     \<lparr> RegisteredSources = [], ListenerDataArray = [FAcousticListenerData_init],
       RegisteredZones = [], MaterialMappings = (\<lambda>n. None),
       CurrentBudget = \<lparr> OcclusionRays = 0, ReflectionRays = 0, TotalRaysUsed = 0,
                         TotalRaysBudget = MaxRaysPerFrame Settings \<rparr>,
       NextSourceId = 1, OcclusionUpdateAccumulator = 0, ReflectionUpdateAccumulator = 0,
       ZoneUpdateAccumulator = 0 \<rparr>"

text \<open>\<^verbatim>\<open>TWeakObjectPtr::Get\<close> on a source component pointer.\<close>

definition WeakGet :: "Host \<Rightarrow> nat option \<Rightarrow> UAcousticSourceComponent option" where
  "WeakGet H P = (case P of None \<Rightarrow> None | Some a \<Rightarrow> Objects H a)"

section \<open>Operations\<close>

subsection \<open>Constants (namespace AcousticConstants)\<close>

definition SpeedOfSound :: real where
  "SpeedOfSound = 34300"

definition MinDistance :: real where
  "MinDistance = 1"

definition DefaultLPFCutoff :: real where
  "DefaultLPFCutoff = 20000"

definition OccludedLPFCutoff :: real where
  "OccludedLPFCutoff = 500"

text \<open>The array \<^verbatim>\<open>ImportanceMultipliers\<close>, which \<^verbatim>\<open>ComputePriorityScore\<close> declares again
  with the same elements.\<close>

definition ImportanceMultipliers :: "real list" where
  "ImportanceMultipliers = [0.25, 1, 2, 10]"

subsection \<open>Materials and occlusion\<close>

text \<open>\<^verbatim>\<open>UAcousticEngineSubsystem::GetAcousticMaterial\<close>; the argument is the physical material's
  name, \<open>None\<close> for a null pointer.\<close>

definition GetAcousticMaterial ::
  "UAcousticEngineSubsystem \<Rightarrow> string option \<Rightarrow> FAcousticMaterial" where
  "GetAcousticMaterial S PhysMat =
     (let Dflt = FAcousticMaterial_init\<lparr> MaterialType := Default, LowAbsorption := 0.1,
                   MidAbsorption := 0.2, HighAbsorption := 0.3, Transmission := 0,
                   Scattering := 0.1 \<rparr>
      in case PhysMat of
           None \<Rightarrow> Dflt
         | Some PhysMatName \<Rightarrow>
             (case MaterialMappings S PhysMatName of Some Found \<Rightarrow> Found | None \<Rightarrow> Dflt))"

text \<open>\<^verbatim>\<open>UAcousticEngineSubsystem::ComputeOcclusionFactor\<close>; \<^verbatim>\<open>Settings\<close> may be null.\<close>

definition ComputeOcclusionFactor :: "UAcousticSettings option \<Rightarrow> FAcousticRayHit \<Rightarrow> real" where
  "ComputeOcclusionFactor Settings Hit =
     (if \<not> bIsValidHit Hit then 0
      else
        let BaseOcclusion = 1 - Transmission (Material Hit);
            RealismFactor' = (case Settings of Some St \<Rightarrow> RealismFactor St | None \<Rightarrow> 0.7);
            Occlusion' = BaseOcclusion * RealismFactor'
        in FMath_Clamp Occlusion' 0 1)"

text \<open>\<^verbatim>\<open>UAcousticEngineSubsystem::ComputeLPFFromOcclusion\<close>.\<close>

definition ComputeLPFFromOcclusion :: "real \<Rightarrow> FAcousticMaterial \<Rightarrow> real" where
  "ComputeLPFFromOcclusion OcclusionFactor Mat =
     (let MinCutoff = OccludedLPFCutoff;
          MaxCutoff = DefaultLPFCutoff;
          MaterialFactor = 1 - (HighAbsorption Mat * 0.5);
          MinCutoff = MinCutoff * MaterialFactor
      in FMath_Lerp MaxCutoff MinCutoff OcclusionFactor)"

text \<open>\<^verbatim>\<open>AcousticUtils::CalculateLPFCutoffFromOcclusion\<close> (AcousticTypes.cpp); no function of the
  repository calls it.\<close>

definition CalculateLPFCutoffFromOcclusion :: "real \<Rightarrow> real \<Rightarrow> real \<Rightarrow> real" where
  "CalculateLPFCutoffFromOcclusion Occl MinCutoff MaxCutoff =
     (let LogMin = ln MinCutoff;
          LogMax = ln MaxCutoff;
          LogCutoff = FMath_Lerp LogMax LogMin Occl
      in exp LogCutoff)"

text \<open>\<^verbatim>\<open>UAcousticEngineSubsystem::TraceOcclusion\<close>: the returned occlusion and the out-parameter
  \<^verbatim>\<open>OutHit\<close> as the call leaves it.\<close>

definition TraceOcclusion ::
  "Host \<Rightarrow> UAcousticSettings option \<Rightarrow> UAcousticEngineSubsystem \<Rightarrow> FVector \<Rightarrow> FVector
     \<Rightarrow> FAcousticRayHit \<Rightarrow> real \<times> FAcousticRayHit" where
  "TraceOcclusion H Settings S Start End OutHit =
     (case (GetWorld H, Settings) of
        (Some LineTraceSingleByChannel, Some St) \<Rightarrow>
          (case LineTraceSingleByChannel Start End of
             Some HitResult \<Rightarrow>
               (let OutHit = OutHit\<lparr> bIsValidHit := True,
                                     HitLocation := ImpactPoint HitResult,
                                     HitNormal := ImpactNormal HitResult,
                                     Distance := HitResult_Distance HitResult \<rparr>;
                    OutHit = (case PhysMaterial HitResult of
                                Some n \<Rightarrow> OutHit\<lparr> PhysicalMaterialName := n,
                                                   Material := GetAcousticMaterial S (Some n) \<rparr>
                              | None \<Rightarrow> OutHit\<lparr> Material := GetAcousticMaterial S None \<rparr>)
                in (ComputeOcclusionFactor Settings OutHit, OutHit))
           | None \<Rightarrow> (0, OutHit\<lparr> bIsValidHit := False \<rparr>))
      | _ \<Rightarrow> (0, OutHit))"

text \<open>The body of the loop of \<^verbatim>\<open>ProcessOcclusion\<close> from \<^verbatim>\<open>// Trace occlusion\<close> on: the entry
  after one occlusion update.\<close>

definition OcclusionUpdate ::
  "Host \<Rightarrow> UAcousticSettings \<Rightarrow> UAcousticEngineSubsystem \<Rightarrow> FVector \<Rightarrow> real
     \<Rightarrow> UAcousticSourceComponent \<Rightarrow> FAcousticSourceEntry \<Rightarrow> FAcousticSourceEntry" where
  "OcclusionUpdate H Settings S ListenerLocation CurrentTime Source Entry =
     (let SourceLocation = GetAcousticLocation Source;
          (Occl, OcclusionHit) =
             TraceOcclusion H (Some Settings) S ListenerLocation SourceLocation
               FAcousticRayHit_init;
          Entry = Entry\<lparr> PreviousParams := CurrentParams Entry \<rparr>;
          Params = CurrentParams Entry;
          Params = Params\<lparr> Occlusion := Occl \<rparr>;
          Params = Params\<lparr> LowPassCutoff :=
                              ComputeLPFFromOcclusion Occl (Material OcclusionHit) \<rparr>;
          Params = Params\<lparr> TransmissionGain :=
                              (if bIsValidHit OcclusionHit
                               then (1 - Occl) + (Occl * Transmission (Material OcclusionHit))
                               else 1) \<rparr>;
          Params = Params\<lparr> Params_bIsValid := True \<rparr>
      in Entry\<lparr> CurrentParams := Params, LastOcclusionUpdateTime := CurrentTime \<rparr>)"

subsection \<open>Reflection clustering\<close>

text \<open>The body of the tap loop of \<^verbatim>\<open>ClusterReflections\<close>: the tap \<^verbatim>\<open>OutParams.Taps[i]\<close> after
  the assignments from \<^verbatim>\<open>SortedHits[i]\<close>.\<close>

definition TapFromHit :: "FAcousticRayHit \<Rightarrow> FReflectionTap \<Rightarrow> FReflectionTap" where
  "TapFromHit Hit Tap =
     (let Tap = Tap\<lparr> DelayMs := (Distance Hit / SpeedOfSound) * 1000 \<rparr>;
          DistanceAtten = 1 / max (Distance Hit / 100) 1;
          MaterialAtten = 1 - GetAverageAbsorption (Material Hit);
          Tap = Tap\<lparr> Gain := FMath_Clamp (DistanceAtten * MaterialAtten * 0.5) 0 1 \<rparr>;
          Tap = Tap\<lparr> LPFCutoff :=
                        FMath_Lerp DefaultLPFCutoff 3000 (HighAbsorption (Material Hit)) \<rparr>;
          Tap = Tap\<lparr> Azimuth := 0, Elevation := 0 \<rparr>
      in Tap\<lparr> bIsValid := True \<rparr>)"

text \<open>The tap loop \<^verbatim>\<open>for (i = 0; i < NumTaps; i++)\<close> over the pair of \<^verbatim>\<open>OutParams.Taps\<close> and
  \<^verbatim>\<open>TotalDelay\<close>. Every \<^verbatim>\<open>FEarlyReflectionParams\<close> is built with \<^verbatim>\<open>MaxTaps\<close> taps and no
  function changes that length, so \<^verbatim>\<open>Taps[i]\<close> is in range in the source.\<close>

fun ClusterLoop ::
  "FAcousticRayHit list \<Rightarrow> nat list \<Rightarrow> FReflectionTap list \<times> real
     \<Rightarrow> FReflectionTap list \<times> real" where
  "ClusterLoop SortedHits [] acc = acc"
| "ClusterLoop SortedHits (i # rest) (Tps, TotalDelay) =
     (let Tap = TapFromHit (SortedHits ! i) (Tps ! i)
      in ClusterLoop SortedHits rest (Tps[i := Tap], TotalDelay + DelayMs Tap))"

text \<open>\<^verbatim>\<open>UAcousticEngineSubsystem::ClusterReflections\<close>. \<^verbatim>\<open>TArray::Sort\<close> with the predicate
  \<^verbatim>\<open>A.Distance < B.Distance\<close> sorts into ascending distance; among hits of equal distance the
  host's order is unspecified, the model keeps their order.\<close>

definition ClusterReflections ::
  "FAcousticRayHit list \<Rightarrow> FEarlyReflectionParams \<Rightarrow> FEarlyReflectionParams" where
  "ClusterReflections Hits OutParams =
     (let OutParams = EarlyReflections_Reset OutParams
      in if length Hits = 0 then OutParams
         else
           let SortedHits = sort_key Distance Hits;
               OutParams = OutParams\<lparr> ReflectionDensity :=
                                         FMath_Clamp (real (length Hits) / 20) 0 1 \<rparr>;
               NumTaps = min (length SortedHits) MaxTaps;
               (Tps, TotalDelay) =
                  ClusterLoop SortedHits [0..<NumTaps] (Taps OutParams, 0)
           in OutParams\<lparr> Taps := Tps, ValidTapCount := int NumTaps,
                          AverageDelayMs :=
                            (if NumTaps > 0 then TotalDelay / real NumTaps else 0) \<rparr>)"

subsection \<open>Hemisphere sampling\<close>

definition GoldenRatio :: real where
  "GoldenRatio = (1 + sqrt 5) / 2"

definition AngleIncrement :: real where
  "AngleIncrement = pi * 2 * GoldenRatio"

text \<open>The body of the loop of \<^verbatim>\<open>GenerateHemisphereRays\<close> for the index \<open>i\<close>.\<close>

definition HemisphereDirection :: "(FVector \<Rightarrow> FVector) \<Rightarrow> int \<Rightarrow> nat \<Rightarrow> FVector" where
  "HemisphereDirection Rotation NumRays i =
     (let T = real i / real_of_int NumRays;
          Inclination = arccos (1 - T);
          Azim = AngleIncrement * real i;
          Direction = FVector (sin Inclination * cos Azim) (sin Inclination * sin Azim)
                        (cos Inclination)
      in Rotation Direction)"

text \<open>\<^verbatim>\<open>UAcousticEngineSubsystem::GenerateHemisphereRays\<close>: the array \<^verbatim>\<open>OutDirections\<close>.\<close>

definition GenerateHemisphereRays :: "Host \<Rightarrow> FVector \<Rightarrow> int \<Rightarrow> FVector list" where
  "GenerateHemisphereRays H Nrm NumRays =
     (let Rotation = FindBetweenNormals H UpVector Nrm
      in map (HemisphereDirection Rotation NumRays) [0..<nat NumRays])"

text \<open>The body of the loop of \<^verbatim>\<open>SampleReflections\<close>: the hit added to \<^verbatim>\<open>OutHits\<close> for one
  direction, if the ray hits.\<close>

definition ReflectionRay ::
  "(FVector \<Rightarrow> FVector \<Rightarrow> FHitResult option) \<Rightarrow> UAcousticSettings \<Rightarrow> UAcousticEngineSubsystem
     \<Rightarrow> FVector \<Rightarrow> FVector \<Rightarrow> FAcousticRayHit option" where
  "ReflectionRay LineTraceSingleByChannel Settings S Origin Direction =
     (let End = VAdd Origin (VScale Direction (MaxTraceDistance Settings))
      in case LineTraceSingleByChannel Origin End of
           None \<Rightarrow> None
         | Some HitResult \<Rightarrow>
             (let RayHit = FAcousticRayHit_init\<lparr> bIsValidHit := True,
                             HitLocation := ImpactPoint HitResult,
                             HitNormal := ImpactNormal HitResult,
                             Distance := HitResult_Distance HitResult \<rparr>
              in Some (case PhysMaterial HitResult of
                         Some n \<Rightarrow> RayHit\<lparr> PhysicalMaterialName := n,
                                            Material := GetAcousticMaterial S (Some n) \<rparr>
                       | None \<Rightarrow> RayHit\<lparr> Material := GetAcousticMaterial S None \<rparr>)))"

text \<open>\<^verbatim>\<open>UAcousticEngineSubsystem::SampleReflections\<close>: the out-parameter \<^verbatim>\<open>OutHits\<close> as the call
  leaves it, and the number of calls of \<^verbatim>\<open>LineTraceSingleByChannel\<close> it made (one for each
  generated direction).\<close>

definition SampleReflections ::
  "Host \<Rightarrow> UAcousticSettings option \<Rightarrow> UAcousticEngineSubsystem \<Rightarrow> FVector \<Rightarrow> FVector \<Rightarrow> int
     \<Rightarrow> FAcousticRayHit list \<Rightarrow> FAcousticRayHit list \<times> nat" where
  "SampleReflections H Settings S Origin Fwd NumRays OutHits =
     (case (GetWorld H, Settings) of
        (Some LineTraceSingleByChannel, Some St) \<Rightarrow>
          (let Directions = GenerateHemisphereRays H Fwd NumRays
           in (List.map_filter (ReflectionRay LineTraceSingleByChannel St S Origin) Directions,
               length Directions))
      | _ \<Rightarrow> (OutHits, 0))"

subsection \<open>Zone lookup\<close>

definition INT_MIN :: int where
  "INT_MIN = - (2 ^ 31)"

text \<open>The loop of \<^verbatim>\<open>GetZoneAtLocation\<close> over the pair of \<^verbatim>\<open>BestZone\<close> and
  \<^verbatim>\<open>BestPriority\<close>.\<close>

fun GetZoneAtLocation_loop ::
  "AAcousticZoneVolume option list \<Rightarrow> FVector \<Rightarrow> AAcousticZoneVolume option \<times> int
     \<Rightarrow> AAcousticZoneVolume option \<times> int" where
  "GetZoneAtLocation_loop [] Loc acc = acc"
| "GetZoneAtLocation_loop (ZonePtr # rest) Loc (BestZone, BestPriority) =
     (case ZonePtr of
        None \<Rightarrow> GetZoneAtLocation_loop rest Loc (BestZone, BestPriority)
      | Some Zone \<Rightarrow>
          (if ContainsPoint Zone Loc \<and> Priority Zone > BestPriority
           then GetZoneAtLocation_loop rest Loc (Some Zone, Priority Zone)
           else GetZoneAtLocation_loop rest Loc (BestZone, BestPriority)))"

definition GetZoneAtLocation ::
  "UAcousticEngineSubsystem \<Rightarrow> FVector \<Rightarrow> AAcousticZoneVolume option" where
  "GetZoneAtLocation S Loc = fst (GetZoneAtLocation_loop (RegisteredZones S) Loc (None, INT_MIN))"

text \<open>\<^verbatim>\<open>UAcousticEngineSubsystem::GetCurrentZonePreset\<close>.\<close>

definition GetCurrentZonePreset :: "UAcousticEngineSubsystem \<Rightarrow> int \<Rightarrow> FAcousticZonePreset" where
  "GetCurrentZonePreset S ListenerIndex =
     (let Dflt = FAcousticZonePreset_init\<lparr> PresetName := ''Default'', ZoneType := ZoneDefault \<rparr>
      in if ListenerIndex \<ge> 0 \<and> ListenerIndex < int (length (ListenerDataArray S))
         then (case GetZoneAtLocation S (Location (ListenerDataArray S ! nat ListenerIndex)) of
                 Some Zone \<Rightarrow> ZonePreset Zone
               | None \<Rightarrow> Dflt)
         else Dflt)"

subsection \<open>Priority score (AcousticSourceComponent.cpp)\<close>

text \<open>\<^verbatim>\<open>UAcousticSourceComponent::ComputePriorityScore\<close>.\<close>

definition ComputePriorityScore :: "UAcousticSourceComponent \<Rightarrow> FVector \<Rightarrow> real" where
  "ComputePriorityScore Source ListenerLocation =
     (if PriorityOverride Source \<ge> 0 then PriorityOverride Source
      else
        let Dst = max (Dist (GetAcousticLocation Source) ListenerLocation) 1;
            DistanceFactor = 1 / (Dst / 100);
            Prio = BaseLoudness Source * DistanceFactor;
            ImportanceIndex = Importance_value (Importance Source);
            Prio = (if ImportanceIndex \<ge> 0 \<and> ImportanceIndex < 4
                    then Prio * (ImportanceMultipliers ! nat ImportanceIndex) else Prio);
            Prio = (if HasFlag Source IsHero then Prio * 100 else Prio);
            Prio = (if Importance Source = Critical then FLT_MAX else Prio)
        in Prio)"

subsection \<open>The source registry\<close>

text \<open>The value that an \<^verbatim>\<open>int32\<close> holds after the result \<open>x\<close> of an addition was stored in
  it: \<open>x\<close> wrapped around into the range from \<open>- 2 ^ 31\<close> to \<open>2 ^ 31 - 1\<close>, so that
  2147483647 is followed by -2147483648.\<close>

definition int32_wrap :: "int \<Rightarrow> int" where
  "int32_wrap x = (x + 2147483648) mod 4294967296 - 2147483648"

text \<open>\<^verbatim>\<open>TMap::Find\<close>, \<^verbatim>\<open>TMap::Add\<close>, \<^verbatim>\<open>TMap::Remove\<close> and a write through the pointer that
  \<^verbatim>\<open>Find\<close> returns, on the association list of the map's pairs.\<close>

definition TMap_Find :: "int \<Rightarrow> (int \<times> 'v) list \<Rightarrow> 'v option" where
  "TMap_Find k m = map_of m k"

definition TMap_Set :: "int \<Rightarrow> 'v \<Rightarrow> (int \<times> 'v) list \<Rightarrow> (int \<times> 'v) list" where
  "TMap_Set k v m = map (\<lambda>p. if fst p = k then (k, v) else p) m"

definition TMap_Add :: "int \<Rightarrow> 'v \<Rightarrow> (int \<times> 'v) list \<Rightarrow> (int \<times> 'v) list" where
  "TMap_Add k v m = (if map_of m k = None then m @ [(k, v)] else TMap_Set k v m)"

definition TMap_Remove :: "int \<Rightarrow> (int \<times> 'v) list \<Rightarrow> (int \<times> 'v) list" where
  "TMap_Remove k m = filter (\<lambda>p. fst p \<noteq> k) m"

text \<open>The pointer that \<^verbatim>\<open>SourceComponent.Get()\<close> returns: null for a stale weak pointer.\<close>

definition WeakGetPtr :: "Host \<Rightarrow> nat option \<Rightarrow> nat option" where
  "WeakGetPtr H P = (case WeakGet H P of None \<Rightarrow> None | Some c \<Rightarrow> P)"

text \<open>\<^verbatim>\<open>UAcousticEngineSubsystem::RegisterSource\<close>: the returned id and the subsystem after the
  call. A non-null \<^verbatim>\<open>Source\<close> points to a live component, which the source dereferences
  for its \<^verbatim>\<open>AcousticLOD\<close>. \<^verbatim>\<open>Entry.SourceId = NextSourceId++\<close> stores the counter and then
  increments the \<^verbatim>\<open>int32\<close>, with wrap-around.\<close>

definition RegisterSource ::
  "Host \<Rightarrow> UAcousticEngineSubsystem \<Rightarrow> nat option \<Rightarrow> int \<times> UAcousticEngineSubsystem" where
  "RegisterSource H S Source =
     (case Source of
        None \<Rightarrow> (- 1, S)
      | Some a \<Rightarrow>
          (case find (\<lambda>Pr. WeakGetPtr H (SourceComponent (snd Pr)) = Source)
                  (RegisteredSources S) of
             Some Pr \<Rightarrow> (fst Pr, S)
           | None \<Rightarrow>
               (let Entry = FAcousticSourceEntry_init\<lparr> SourceComponent := Source \<rparr>;
                    Entry = Entry\<lparr> SourceId := NextSourceId S \<rparr>;
                    S = S\<lparr> NextSourceId := int32_wrap (NextSourceId S + 1) \<rparr>;
                    Entry = Entry\<lparr> CurrentParams := Params_Reset (CurrentParams Entry),
                                    PreviousParams := Params_Reset (PreviousParams Entry) \<rparr>;
                    Entry = Entry\<lparr> EffectiveLOD :=
                                      (case Objects H a of Some c \<Rightarrow> AcousticLOD c
                                       | None \<Rightarrow> EffectiveLOD Entry) \<rparr>;
                    Entry = Entry\<lparr> bIsAudible := True \<rparr>;
                    S = S\<lparr> RegisteredSources :=
                              TMap_Add (SourceId Entry) Entry (RegisteredSources S) \<rparr>
                in (SourceId Entry, S))))"

text \<open>\<^verbatim>\<open>UAcousticEngineSubsystem::UnregisterSource\<close>.\<close>

definition UnregisterSource :: "UAcousticEngineSubsystem \<Rightarrow> int \<Rightarrow> UAcousticEngineSubsystem" where
  "UnregisterSource S SrcId = S\<lparr> RegisteredSources := TMap_Remove SrcId (RegisteredSources S) \<rparr>"

text \<open>A session of registry calls, each against the host's object store of its moment, and
  the ids that the calls creating an entry returned, in order.\<close>

datatype SourceOp = OpRegister Host "nat option" | OpUnregister int

fun RunSourceOps ::
  "SourceOp list \<Rightarrow> UAcousticEngineSubsystem \<Rightarrow> int list \<times> UAcousticEngineSubsystem" where
  "RunSourceOps [] S = ([], S)"
| "RunSourceOps (OpUnregister SrcId # ops) S = RunSourceOps ops (UnregisterSource S SrcId)"
| "RunSourceOps (OpRegister H Source # ops) S =
     (let (Id, S') = RegisterSource H S Source;
          (Ids, S'') = RunSourceOps ops S'
      in (if length (RegisteredSources S') > length (RegisteredSources S) then Id # Ids else Ids,
          S''))"



subsection \<open>Priorities and level of detail\<close>

text \<open>The first loop of \<^verbatim>\<open>UpdateSourcePriorities\<close>: the entries with distance and priority
  score stored, and the array \<^verbatim>\<open>SortedSources\<close> before sorting.\<close>

fun Priorities_loop ::
  "Host \<Rightarrow> FVector \<Rightarrow> (int \<times> FAcousticSourceEntry) list
     \<Rightarrow> (int \<times> FAcousticSourceEntry) list \<times> (int \<times> real) list" where
  "Priorities_loop H ListenerLocation [] = ([], [])"
| "Priorities_loop H ListenerLocation ((Key, Entry) # rest) =
     (let (Entries, SortedSources) = Priorities_loop H ListenerLocation rest
      in case WeakGet H (SourceComponent Entry) of
           None \<Rightarrow> ((Key, Entry) # Entries, SortedSources)
         | Some Source \<Rightarrow>
             (let SourceLocation = GetAcousticLocation Source;
                  Dst = max (Dist SourceLocation ListenerLocation) MinDistance;
                  Entry = Entry\<lparr> CurrentParams := (CurrentParams Entry)\<lparr> Params_Distance := Dst \<rparr> \<rparr>;
                  Prio = ComputePriorityScore Source ListenerLocation;
                  Entry = Entry\<lparr> PriorityScore := Prio \<rparr>
              in ((Key, Entry) # Entries, (Key, Prio) # SortedSources)))"

text \<open>The body of the second loop of \<^verbatim>\<open>UpdateSourcePriorities\<close> for a live source: the entry
  and the counters \<^verbatim>\<open>AdvancedCount\<close> and \<^verbatim>\<open>HeroCount\<close> after it.\<close>

definition AssignLOD ::
  "UAcousticSettings \<Rightarrow> UAcousticSourceComponent \<Rightarrow> FAcousticSourceEntry \<Rightarrow> int \<Rightarrow> int
     \<Rightarrow> FAcousticSourceEntry \<times> int \<times> int" where
  "AssignLOD Settings Source Entry AdvancedCount HeroCount =
     (let DesiredLOD = AcousticLOD Source;
          Dst = Params_Distance (CurrentParams Entry);
          DesiredLOD =
            (if Dst > OffLODDistance Settings then Off
             else if Dst > BasicLODDistance Settings \<and> LOD_value DesiredLOD > LOD_value Basic
             then Basic else DesiredLOD);
          (DesiredLOD, HeroCount) =
            (if DesiredLOD = Hero
             then (if HeroCount \<ge> MaxHeroSources Settings then (Advanced, HeroCount)
                   else (DesiredLOD, HeroCount + 1))
             else (DesiredLOD, HeroCount));
          (DesiredLOD, AdvancedCount) =
            (if DesiredLOD = Advanced
             then (if AdvancedCount \<ge> MaxAdvancedSources Settings then (Basic, AdvancedCount)
                   else (DesiredLOD, AdvancedCount + 1))
             else (DesiredLOD, AdvancedCount))
      in (Entry\<lparr> EffectiveLOD := DesiredLOD, bIsAudible := (DesiredLOD \<noteq> Off) \<rparr>,
          AdvancedCount, HeroCount))"

fun AssignLOD_loop ::
  "Host \<Rightarrow> UAcousticSettings \<Rightarrow> (int \<times> real) list
     \<Rightarrow> (int \<times> FAcousticSourceEntry) list \<times> int \<times> int
     \<Rightarrow> (int \<times> FAcousticSourceEntry) list \<times> int \<times> int" where
  "AssignLOD_loop H Settings [] acc = acc"
| "AssignLOD_loop H Settings (SortedPair # rest) (Sources, AdvancedCount, HeroCount) =
     (case TMap_Find (fst SortedPair) Sources of
        None \<Rightarrow> AssignLOD_loop H Settings rest (Sources, AdvancedCount, HeroCount)
      | Some Entry \<Rightarrow>
          (case WeakGet H (SourceComponent Entry) of
             None \<Rightarrow> AssignLOD_loop H Settings rest (Sources, AdvancedCount, HeroCount)
           | Some Source \<Rightarrow>
               (let (Entry', AdvancedCount', HeroCount') =
                      AssignLOD Settings Source Entry AdvancedCount HeroCount
                in AssignLOD_loop H Settings rest
                     (TMap_Set (fst SortedPair) Entry' Sources, AdvancedCount', HeroCount'))))"

text \<open>\<^verbatim>\<open>UAcousticEngineSubsystem::UpdateSourcePriorities\<close>. \<^verbatim>\<open>TArray::Sort\<close> with the predicate
  \<^verbatim>\<open>A.Value > B.Value\<close> sorts into descending priority; among equal priorities the host's
  order is unspecified, the model keeps their order.\<close>

definition UpdateSourcePriorities ::
  "Host \<Rightarrow> UAcousticSettings \<Rightarrow> UAcousticEngineSubsystem \<Rightarrow> UAcousticEngineSubsystem" where
  "UpdateSourcePriorities H Settings S =
     (if length (ListenerDataArray S) = 0 then S
      else
        let ListenerLocation = Location (ListenerDataArray S ! 0);
            (Sources, SortedSources) = Priorities_loop H ListenerLocation (RegisteredSources S);
            SortedSources = sort_key (\<lambda>A. - snd A) SortedSources;
            (Sources, AdvancedCount, HeroCount) =
               AssignLOD_loop H Settings SortedSources (Sources, 0, 0)
        in S\<lparr> RegisteredSources := Sources \<rparr>)"

subsection \<open>Occlusion and reflection passes\<close>

text \<open>The body of the loop of \<^verbatim>\<open>ProcessOcclusion\<close> up to its decision: \<^verbatim>\<open>continue\<close>,
  \<^verbatim>\<open>break\<close>, or the entry after an occlusion trace.\<close>

datatype OcclusionDecision = Continue | Break | TraceAndUpdate FAcousticSourceEntry

definition OcclusionStep ::
  "Host \<Rightarrow> UAcousticSettings \<Rightarrow> UAcousticEngineSubsystem \<Rightarrow> FVector \<Rightarrow> real
     \<Rightarrow> FAcousticSourceEntry \<Rightarrow> FRayBudgetAllocation \<Rightarrow> OcclusionDecision" where
  "OcclusionStep H Settings S ListenerLocation CurrentTime Entry B =
     (if EffectiveLOD Entry = Off then Continue
      else if TotalRaysUsed B \<ge> TotalRaysBudget B then Break
      else
        case WeakGet H (SourceComponent Entry) of
          None \<Rightarrow> Continue
        | Some Source \<Rightarrow>
            (let TimeSinceUpdate = CurrentTime - LastOcclusionUpdateTime Entry;
                 CacheTime = real_of_int (OcclusionCacheFrames Settings) / 60
             in if TimeSinceUpdate < CacheTime \<and> Params_bIsValid (CurrentParams Entry)
                then Continue
                else TraceAndUpdate
                       (OcclusionUpdate H Settings S ListenerLocation CurrentTime Source
                          Entry)))"

text \<open>The loop of \<^verbatim>\<open>ProcessOcclusion\<close> over the registered sources, with the budget
  threaded through: the entries and the budget after the loop, and the keys of the sources
  for which \<^verbatim>\<open>TraceOcclusion\<close> was called, in order. After a \<^verbatim>\<open>break\<close> the remaining
  entries are not visited.\<close>

fun ProcessOcclusion_loop ::
  "Host \<Rightarrow> UAcousticSettings \<Rightarrow> UAcousticEngineSubsystem \<Rightarrow> FVector \<Rightarrow> real
     \<Rightarrow> (int \<times> FAcousticSourceEntry) list \<Rightarrow> FRayBudgetAllocation
     \<Rightarrow> (int \<times> FAcousticSourceEntry) list \<times> FRayBudgetAllocation \<times> int list" where
  "ProcessOcclusion_loop H Settings S ListenerLocation CurrentTime [] B = ([], B, [])"
| "ProcessOcclusion_loop H Settings S ListenerLocation CurrentTime ((Key, Entry) # rest) B =
     (case OcclusionStep H Settings S ListenerLocation CurrentTime Entry B of
        Continue \<Rightarrow>
          (let (Entries, B', Rays) =
                 ProcessOcclusion_loop H Settings S ListenerLocation CurrentTime rest B
           in ((Key, Entry) # Entries, B', Rays))
      | Break \<Rightarrow> ((Key, Entry) # rest, B, [])
      | TraceAndUpdate Entry' \<Rightarrow>
          (let B = B\<lparr> OcclusionRays := OcclusionRays B + 1 \<rparr>;
               B = B\<lparr> TotalRaysUsed := TotalRaysUsed B + 1 \<rparr>;
               (Entries, B', Rays) =
                  ProcessOcclusion_loop H Settings S ListenerLocation CurrentTime rest B
           in ((Key, Entry') # Entries, B', Key # Rays)))"

text \<open>\<^verbatim>\<open>UAcousticEngineSubsystem::ProcessOcclusion\<close>, with \<^verbatim>\<open>FPlatformTime::Seconds()\<close> as
  \<open>CurrentTime\<close>.\<close>

definition ProcessOcclusion ::
  "Host \<Rightarrow> UAcousticSettings \<Rightarrow> real \<Rightarrow> UAcousticEngineSubsystem
     \<Rightarrow> UAcousticEngineSubsystem \<times> int list" where
  "ProcessOcclusion H Settings CurrentTime S =
     (if length (ListenerDataArray S) = 0 then (S, [])
      else
        let ListenerLocation = Location (ListenerDataArray S ! 0);
            (Entries, B, Traced) =
               ProcessOcclusion_loop H Settings S ListenerLocation CurrentTime
                 (RegisteredSources S) (CurrentBudget S)
        in (S\<lparr> RegisteredSources := Entries, CurrentBudget := B \<rparr>, Traced))"

text \<open>The body of the loop of \<^verbatim>\<open>ProcessReflections\<close> for one entry: the entry and the budget
  after it, and the number of rays cast for it.\<close>

definition ReflectionUpdate ::
  "Host \<Rightarrow> UAcousticSettings \<Rightarrow> UAcousticEngineSubsystem \<Rightarrow> FAcousticListenerData \<Rightarrow> real
     \<Rightarrow> FAcousticSourceEntry \<Rightarrow> FRayBudgetAllocation
     \<Rightarrow> FAcousticSourceEntry \<times> FRayBudgetAllocation \<times> nat" where
  "ReflectionUpdate H Settings S Listener CurrentTime Entry B =
     (if EffectiveLOD Entry \<noteq> Advanced \<and> EffectiveLOD Entry \<noteq> Hero
      then
        (if EffectiveLOD Entry = Basic
         then
           let ZonePreset' = GetCurrentZonePreset S 0;
               Params = (CurrentParams Entry)\<lparr> ReverbSend := DefaultReverbSend ZonePreset' \<rparr>;
               Params = Params\<lparr> EarlyReflections :=
                                   EarlyReflections_Reset (EarlyReflections Params) \<rparr>
           in (Entry\<lparr> CurrentParams := Params \<rparr>, B, 0)
         else (Entry, B, 0))
      else
        let NumRays = (if EffectiveLOD Entry = Hero then HeroReflectionRays Settings
                       else AdvancedReflectionRays Settings)
        in if TotalRaysUsed B + NumRays > TotalRaysBudget B then (Entry, B, 0)
           else
             case WeakGet H (SourceComponent Entry) of
               None \<Rightarrow> (Entry, B, 0)
             | Some Source \<Rightarrow>
                 (let (ReflectionHits, Cast) =
                        SampleReflections H (Some Settings) S (Location Listener)
                          (Forward Listener) NumRays [];
                      Params = CurrentParams Entry;
                      Params = Params\<lparr> EarlyReflections :=
                                 ClusterReflections ReflectionHits (EarlyReflections Params) \<rparr>;
                      ReflDensity = ReflectionDensity (EarlyReflections Params);
                      ZonePreset' = GetCurrentZonePreset S 0;
                      Params = Params\<lparr> ReverbSend :=
                                 FMath_Lerp (DefaultReverbSend ZonePreset')
                                   (DefaultReverbSend ZonePreset' * 1.5) ReflDensity \<rparr>;
                      Entry = Entry\<lparr> CurrentParams := Params,
                                      LastReflectionUpdateTime := CurrentTime \<rparr>;
                      B = B\<lparr> ReflectionRays := ReflectionRays B + NumRays \<rparr>;
                      B = B\<lparr> TotalRaysUsed := TotalRaysUsed B + NumRays \<rparr>
                  in (Entry, B, Cast)))"

text \<open>The loop of \<^verbatim>\<open>ProcessReflections\<close>: the entries and the budget after it and, for every
  registered source in order, its key with the number of rays cast for it.\<close>

fun ProcessReflections_loop ::
  "Host \<Rightarrow> UAcousticSettings \<Rightarrow> UAcousticEngineSubsystem \<Rightarrow> FAcousticListenerData \<Rightarrow> real
     \<Rightarrow> (int \<times> FAcousticSourceEntry) list \<Rightarrow> FRayBudgetAllocation
     \<Rightarrow> (int \<times> FAcousticSourceEntry) list \<times> FRayBudgetAllocation \<times> (int \<times> nat) list" where
  "ProcessReflections_loop H Settings S Listener CurrentTime [] B = ([], B, [])"
| "ProcessReflections_loop H Settings S Listener CurrentTime ((Key, Entry) # rest) B =
     (let (Entry', B', Cast) = ReflectionUpdate H Settings S Listener CurrentTime Entry B;
          (Entries, B'', Casts) =
             ProcessReflections_loop H Settings S Listener CurrentTime rest B'
      in ((Key, Entry') # Entries, B'', (Key, Cast) # Casts))"

text \<open>\<^verbatim>\<open>UAcousticEngineSubsystem::ProcessReflections\<close>.\<close>

definition ProcessReflections ::
  "Host \<Rightarrow> UAcousticSettings \<Rightarrow> real \<Rightarrow> UAcousticEngineSubsystem
     \<Rightarrow> UAcousticEngineSubsystem \<times> (int \<times> nat) list" where
  "ProcessReflections H Settings CurrentTime S =
     (if length (ListenerDataArray S) = 0 then (S, [])
      else
        let Listener = ListenerDataArray S ! 0;
            (Entries, B, Casts) =
               ProcessReflections_loop H Settings S Listener CurrentTime
                 (RegisteredSources S) (CurrentBudget S)
        in (S\<lparr> RegisteredSources := Entries, CurrentBudget := B \<rparr>, Casts))"

text \<open>\<^verbatim>\<open>UAcousticEngineSubsystem::UpdateListenerZones\<close>, without the broadcast.\<close>

definition UpdateListenerZones :: "UAcousticEngineSubsystem \<Rightarrow> UAcousticEngineSubsystem" where
  "UpdateListenerZones S =
     S\<lparr> ListenerDataArray :=
          map (\<lambda>Listener.
                 let NewZoneId = (case GetZoneAtLocation S (Location Listener) of
                                    Some Zone \<Rightarrow> ZoneId Zone | None \<Rightarrow> - 1)
                 in if NewZoneId \<noteq> CurrentZoneId Listener
                    then Listener\<lparr> CurrentZoneId := NewZoneId \<rparr> else Listener)
            (ListenerDataArray S) \<rparr>"

text \<open>
  \<^verbatim>\<open>UAcousticEngineSubsystem::ProcessAcousticUpdate\<close>, one acoustic-update tick: the
  subsystem after it, the sources traced by the occlusion pass and the rays cast per source
  by the reflection pass. \<open>OcclusionTime\<close> and \<open>ReflectionTime\<close> are the two readings of
  \<^verbatim>\<open>FPlatformTime::Seconds()\<close>. An interval \<^verbatim>\<open>1.0f / Rate\<close> with a zero rate is infinite in the
  source, so that the pass is not due. \<^verbatim>\<open>ApplyParamsToSources\<close> writes to the components and
  broadcasts; it leaves the subsystem as it is.
\<close>

definition ProcessAcousticUpdate ::
  "Host \<Rightarrow> UAcousticSettings \<Rightarrow> real \<Rightarrow> real \<Rightarrow> real \<Rightarrow> UAcousticEngineSubsystem
     \<Rightarrow> UAcousticEngineSubsystem \<times> int list \<times> (int \<times> nat) list" where
  "ProcessAcousticUpdate H Settings OcclusionTime ReflectionTime DeltaTime S =
     (let S = S\<lparr> CurrentBudget := \<lparr> OcclusionRays = 0, ReflectionRays = 0, TotalRaysUsed = 0,
                                     TotalRaysBudget = MaxRaysPerFrame Settings \<rparr> \<rparr>;
          S = S\<lparr> OcclusionUpdateAccumulator := OcclusionUpdateAccumulator S + DeltaTime,
                 ReflectionUpdateAccumulator := ReflectionUpdateAccumulator S + DeltaTime,
                 ZoneUpdateAccumulator := ZoneUpdateAccumulator S + DeltaTime \<rparr>;
          due = (\<lambda>Accumulator Rate. Rate \<noteq> 0 \<and> Accumulator \<ge> 1 / Rate);
          S = UpdateSourcePriorities H Settings S;
          S = (if due (ZoneUpdateAccumulator S) (ZoneUpdateRateHz Settings)
               then (UpdateListenerZones S)\<lparr> ZoneUpdateAccumulator := 0 \<rparr> else S);
          (S, Traced) =
             (if due (OcclusionUpdateAccumulator S) (OcclusionUpdateRateHz Settings)
              then (let (S', Traced) = ProcessOcclusion H Settings OcclusionTime S
                    in (S'\<lparr> OcclusionUpdateAccumulator := 0 \<rparr>, Traced))
              else (S, []));
          (S, Casts) =
             (if due (ReflectionUpdateAccumulator S) (ReflectionUpdateRateHz Settings)
              then (let (S', Casts) = ProcessReflections H Settings ReflectionTime S
                    in (S'\<lparr> ReflectionUpdateAccumulator := 0 \<rparr>, Casts))
              else (S, []))
      in (S, Traced, Casts))"

subsection \<open>Portal (AcousticZoneVolume.cpp)\<close>

record AAcousticPortalVolume =
  bIsOpen :: bool
  Openness :: real
  TargetOpenness :: real
  ClosedTransmission :: real
  ClosedLPFCutoff :: real
  TransitionTime :: real
  bActorTickEnabled :: bool

text \<open>The constructor \<^verbatim>\<open>AAcousticPortalVolume::AAcousticPortalVolume\<close>.\<close>

definition AAcousticPortalVolume_init :: AAcousticPortalVolume where
  "AAcousticPortalVolume_init =
     \<lparr> bIsOpen = True, Openness = 1, TargetOpenness = 1, ClosedTransmission = 0.1,
       ClosedLPFCutoff = 800, TransitionTime = 0.3, bActorTickEnabled = False \<rparr>"

text \<open>\<^verbatim>\<open>AAcousticPortalVolume::SetOpen\<close>.\<close>

definition SetOpen :: "AAcousticPortalVolume \<Rightarrow> bool \<Rightarrow> AAcousticPortalVolume" where
  "SetOpen P bOpen =
     (let P = P\<lparr> bIsOpen := bOpen \<rparr>;
          P = P\<lparr> TargetOpenness := (if bOpen then 1 else 0) \<rparr>
      in if TransitionTime P > 0 then P\<lparr> bActorTickEnabled := True \<rparr>
         else P\<lparr> Openness := TargetOpenness P \<rparr>)"

text \<open>\<^verbatim>\<open>AAcousticPortalVolume::SetOpenness\<close>.\<close>

definition SetOpenness :: "AAcousticPortalVolume \<Rightarrow> real \<Rightarrow> AAcousticPortalVolume" where
  "SetOpenness P NewOpenness =
     (let P = P\<lparr> Openness := FMath_Clamp NewOpenness 0 1 \<rparr>;
          P = P\<lparr> TargetOpenness := Openness P \<rparr>
      in P\<lparr> bIsOpen := (Openness P > 0.5) \<rparr>)"

text \<open>\<^verbatim>\<open>AAcousticPortalVolume::UpdateTransition\<close>, the body of the actor's tick.\<close>

definition UpdateTransition :: "AAcousticPortalVolume \<Rightarrow> real \<Rightarrow> AAcousticPortalVolume" where
  "UpdateTransition P DeltaTime =
     (if FMath_IsNearlyEqual (Openness P) (TargetOpenness P) KINDA_SMALL_NUMBER
      then P\<lparr> Openness := TargetOpenness P, bActorTickEnabled := False \<rparr>
      else
        let Rate = (if TransitionTime P > 0 then 1 / TransitionTime P else 100)
        in if Openness P < TargetOpenness P
           then P\<lparr> Openness := min (Openness P + Rate * DeltaTime) (TargetOpenness P) \<rparr>
           else P\<lparr> Openness := max (Openness P - Rate * DeltaTime) (TargetOpenness P) \<rparr>)"

definition GetCurrentTransmission :: "AAcousticPortalVolume \<Rightarrow> real" where
  "GetCurrentTransmission P = FMath_Lerp (ClosedTransmission P) 1 (Openness P)"

definition GetCurrentLPFCutoff :: "AAcousticPortalVolume \<Rightarrow> real" where
  "GetCurrentLPFCutoff P = FMath_Lerp (ClosedLPFCutoff P) 20000 (Openness P)"

text \<open>A sequence of calls on a portal, applied in order.\<close>

datatype PortalOp = OpSetOpen bool | OpSetOpenness real | OpUpdateTransition real

fun PortalStep :: "AAcousticPortalVolume \<Rightarrow> PortalOp \<Rightarrow> AAcousticPortalVolume" where
  "PortalStep P (OpSetOpen bOpen) = SetOpen P bOpen"
| "PortalStep P (OpSetOpenness NewOpenness) = SetOpenness P NewOpenness"
| "PortalStep P (OpUpdateTransition DeltaTime) = UpdateTransition P DeltaTime"

definition RunPortalOps :: "AAcousticPortalVolume \<Rightarrow> PortalOp list \<Rightarrow> AAcousticPortalVolume" where
  "RunPortalOps P ops = foldl PortalStep P ops"

subsection \<open>Master stage (AcousticSubmixEffects.cpp)\<close>

datatype EAudioOutputMode = Speakers | Headphones

record FAcousticMasterSettings =
  bEnabled :: bool
  OutputMode :: EAudioOutputMode
  GlobalReverbLevel :: real
  DistanceCompression :: real
  LimiterThresholdDb :: real
  OutputGainDb :: real

definition FAcousticMasterSettings_init :: FAcousticMasterSettings where
  "FAcousticMasterSettings_init =
     \<lparr> bEnabled = True, OutputMode = Speakers, GlobalReverbLevel = 1,
       DistanceCompression = 1, LimiterThresholdDb = - 1, OutputGainDb = 0 \<rparr>"

record FAcousticMasterEffect =
  CurrentSettings :: FAcousticMasterSettings
  SampleRate :: real
  LimiterEnvelope :: real
  LimiterGain :: real
  SmoothedOutputGain :: real

definition FAcousticMasterEffect_init :: FAcousticMasterEffect where
  "FAcousticMasterEffect_init =
     \<lparr> CurrentSettings = FAcousticMasterSettings_init, SampleRate = 48000,
       LimiterEnvelope = 0, LimiterGain = 1, SmoothedOutputGain = 1 \<rparr>"

text \<open>\<^verbatim>\<open>FAcousticMasterEffect::Init\<close>.\<close>

definition MasterEffect_Init :: "FAcousticMasterEffect \<Rightarrow> real \<Rightarrow> FAcousticMasterEffect" where
  "MasterEffect_Init E InitSampleRate =
     E\<lparr> SampleRate := InitSampleRate, LimiterEnvelope := 0, LimiterGain := 1,
        SmoothedOutputGain := 1 \<rparr>"

text \<open>The coefficients that \<^verbatim>\<open>OnProcessAudio\<close> computes before its frame loop, for the
  positive sample rate of an audio device.\<close>

definition TargetGain :: "FAcousticMasterEffect \<Rightarrow> real" where
  "TargetGain E = 10 powr (OutputGainDb (CurrentSettings E) / 20)"

definition LimiterThreshold :: "FAcousticMasterEffect \<Rightarrow> real" where
  "LimiterThreshold E = 10 powr (LimiterThresholdDb (CurrentSettings E) / 20)"

definition AttackCoeff :: "FAcousticMasterEffect \<Rightarrow> real" where
  "AttackCoeff E = exp (- 1 / (SampleRate E * 0.001))"

definition ReleaseCoeff :: "FAcousticMasterEffect \<Rightarrow> real" where
  "ReleaseCoeff E = exp (- 1 / (SampleRate E * 0.1))"

definition GainSmoothCoeff :: "FAcousticMasterEffect \<Rightarrow> real" where
  "GainSmoothCoeff E = exp (- 1 / (SampleRate E * 0.01))"

text \<open>The channel loop that finds \<^verbatim>\<open>MaxAbs\<close> over the samples of one frame.\<close>

definition FrameMaxAbs :: "real \<Rightarrow> real list \<Rightarrow> real" where
  "FrameMaxAbs Smoothed Samples = foldl (\<lambda>MaxAbs x. max MaxAbs \<bar>x * Smoothed\<bar>) 0 Samples"

text \<open>The body of the frame loop of \<^verbatim>\<open>OnProcessAudio\<close>: the effect's state after the frame
  and the frame's output samples; \<open>Samples\<close> are \<^verbatim>\<open>InBuffer[Frame * NumChannels + Ch]\<close> for
  the channels in order.\<close>

definition ProcessFrame ::
  "FAcousticMasterEffect \<Rightarrow> real list \<Rightarrow> FAcousticMasterEffect \<times> real list" where
  "ProcessFrame E Samples =
     (let E1 = E\<lparr> SmoothedOutputGain :=
                    GainSmoothCoeff E * SmoothedOutputGain E
                    + (1 - GainSmoothCoeff E) * TargetGain E \<rparr>;
          MaxAbs = FrameMaxAbs (SmoothedOutputGain E1) Samples;
          E2 = (if MaxAbs > LimiterEnvelope E1
                then E1\<lparr> LimiterEnvelope :=
                            AttackCoeff E * LimiterEnvelope E1 + (1 - AttackCoeff E) * MaxAbs \<rparr>
                else E1\<lparr> LimiterEnvelope :=
                            ReleaseCoeff E * LimiterEnvelope E1
                            + (1 - ReleaseCoeff E) * MaxAbs \<rparr>);
          E3 = (if LimiterEnvelope E2 > LimiterThreshold E
                then E2\<lparr> LimiterGain := LimiterThreshold E / LimiterEnvelope E2 \<rparr>
                else E2\<lparr> LimiterGain := 1 \<rparr>);
          FinalGain = SmoothedOutputGain E3 * LimiterGain E3
      in (E3, map (\<lambda>x. x * FinalGain) Samples))"

fun ProcessFrames ::
  "FAcousticMasterEffect \<Rightarrow> real list list \<Rightarrow> FAcousticMasterEffect \<times> real list" where
  "ProcessFrames E [] = (E, [])"
| "ProcessFrames E (Samples # rest) =
     (let (E', Out) = ProcessFrame E Samples;
          (E'', Outs) = ProcessFrames E' rest
      in (E'', Out @ Outs))"

text \<open>\<^verbatim>\<open>FAcousticMasterEffect::OnProcessAudio\<close>: the effect's state after the block and the
  first \<^verbatim>\<open>NumFrames * NumChannels\<close> samples of the output buffer. The input buffer holds at
  least that many samples.\<close>

definition OnProcessAudio ::
  "FAcousticMasterEffect \<Rightarrow> real list \<Rightarrow> nat \<Rightarrow> nat \<Rightarrow> FAcousticMasterEffect \<times> real list" where
  "OnProcessAudio E InBuffer NumFrames NumChannels =
     (if \<not> bEnabled (CurrentSettings E) then (E, take (NumFrames * NumChannels) InBuffer)
      else ProcessFrames E
             (map (\<lambda>Frame. map (\<lambda>Ch. InBuffer ! (Frame * NumChannels + Ch)) [0..<NumChannels])
                [0..<NumFrames]))"

subsection \<open>The specification's low-pass cutoff\<close>

text \<open>
  The low-pass cutoff in the specification's words, for comparison with
  \<^const>\<open>ComputeLPFFromOcclusion\<close>: a logarithmic interpolation between a default cutoff of
  20 kHz reduced by the factor \<open>1 - highAbsorption * 0.5\<close> and an occluded floor of 500 Hz
  reduced by the same factor, parameterised by the occlusion.
\<close>

definition spec_LPFCutoff :: "real \<Rightarrow> FAcousticMaterial \<Rightarrow> real" where
  "spec_LPFCutoff occlusion m =
     (let reduction = 1 - HighAbsorption m * 0.5;
          reduced_default = 20000 * reduction;
          reduced_floor = 500 * reduction
      in exp (FMath_Lerp (ln reduced_default) (ln reduced_floor) occlusion))"

subsection \<open>Example scenes\<close>

text \<open>Concrete hosts and registries at which the theorems below are instantiated: a world
  in which every ray hits a concrete wall 100 units away, a world in which every ray is
  clear, and a rotation that is the identity between equal normals and otherwise the quarter
  turn taking the up vector to the forward vector.\<close>

definition Example_Trace_Wall :: "FVector \<Rightarrow> FVector \<Rightarrow> FHitResult option" where
  "Example_Trace_Wall Start End =
     Some \<lparr> ImpactPoint = End, ImpactNormal = UpVector, HitResult_Distance = 100,
            PhysMaterial = Some ''Concrete'' \<rparr>"

definition Example_Trace_Clear :: "FVector \<Rightarrow> FVector \<Rightarrow> FHitResult option" where
  "Example_Trace_Clear Start End = None"

definition Example_Host ::
  "(FVector \<Rightarrow> FVector \<Rightarrow> FHitResult option) \<Rightarrow> (nat \<Rightarrow> UAcousticSourceComponent option)
     \<Rightarrow> Host" where
  "Example_Host Trace Objs =
     \<lparr> GetWorld = Some Trace,
       FindBetweenNormals = (\<lambda>A B V. if A = B then V else FVector (VZ V) (VY V) (- VX V)),
       Objects = Objs \<rparr>"

definition Example_Subsystem :: UAcousticEngineSubsystem where
  "Example_Subsystem =
     (Subsystem_init UAcousticSettings_init)
       \<lparr> MaterialMappings :=
           (\<lambda>n. if n = ''Concrete'' then Some (CreateFromType Concrete) else None) \<rparr>"

text \<open>Two live source components: a hero-LOD source 100 units along the forward axis under
  handle 1 and an advanced-LOD source 200 units along it under handle 2.\<close>

definition Example_Objects :: "nat \<Rightarrow> UAcousticSourceComponent option" where
  "Example_Objects a =
     (if a = 1 then Some (UAcousticSourceComponent_init\<lparr> AcousticLOD := Hero,
                            ComponentLocation := FVector 100 0 0 \<rparr>)
      else if a = 2 then Some (UAcousticSourceComponent_init\<lparr> AcousticLOD := Advanced,
                                 ComponentLocation := FVector 200 0 0 \<rparr>)
      else None)"

subsection \<open>Registry invariant\<close>


subsection \<open>Ray count per level of detail\<close>

text \<open>The ray count \<^verbatim>\<open>NumRays\<close> that \<^verbatim>\<open>ProcessReflections\<close> fixes for a source of a level of
  detail that it samples (Hero or Advanced).\<close>

definition RaysForLOD :: "UAcousticSettings \<Rightarrow> EAcousticLOD \<Rightarrow> int" where
  "RaysForLOD Settings LOD =
     (if LOD = Hero then HeroReflectionRays Settings else AdvancedReflectionRays Settings)"

subsection \<open>Example registry and settings\<close>

text \<open>The registry after both example components were registered with the example
  subsystem; settings that cap hero and advanced sources at one each; and settings with a
  budget of 40 rays per frame (all within the settings' declared ranges).\<close>

definition Example_Registered :: UAcousticEngineSubsystem where
  "Example_Registered =
     snd (RunSourceOps
            [OpRegister (Example_Host Example_Trace_Wall Example_Objects) (Some 1),
             OpRegister (Example_Host Example_Trace_Wall Example_Objects) (Some 2)]
            Example_Subsystem)"


definition Example_Caps :: UAcousticSettings where
  "Example_Caps = UAcousticSettings_init\<lparr> MaxAdvancedSources := 1, MaxHeroSources := 1 \<rparr>"

definition Example_Budget :: UAcousticSettings where
  "Example_Budget = UAcousticSettings_init\<lparr> MaxRaysPerFrame := 40 \<rparr>"

section \<open>Properties\<close>

subsection \<open>Host mathematics\<close>

lemma FMath_Clamp_01: "FMath_Clamp x 0 1 = max 0 (min 1 x)"
  by (simp add: FMath_Clamp_def max_def min_def)

subsection \<open>Portal state\<close>

lemma PortalStep_target_inv:
  "bIsOpen P = (TargetOpenness P > 0.5) \<Longrightarrow>
   bIsOpen (PortalStep P op) = (TargetOpenness (PortalStep P op) > 0.5)"
  by (cases op) (auto simp: SetOpen_def SetOpenness_def UpdateTransition_def Let_def)

lemma RunPortalOps_target_inv:
  "bIsOpen P = (TargetOpenness P > 0.5) \<Longrightarrow>
   bIsOpen (RunPortalOps P ops) = (TargetOpenness (RunPortalOps P ops) > 0.5)"
  unfolding RunPortalOps_def
  by (induction ops arbitrary: P) (simp_all add: PortalStep_target_inv)

text \<open>
  C8 as stated fails: \<^verbatim>\<open>SetOpen(false)\<close> on a freshly constructed portal (transition time
  0.3 s) clears \<^verbatim>\<open>bIsOpen\<close> at once and leaves \<^verbatim>\<open>Openness\<close> at 1 for the transition to
  animate, so the flag is false while the openness is above 0.5.
\<close>

theorem C8_counterexample:
  "bIsOpen (RunPortalOps AAcousticPortalVolume_init [OpSetOpen False])
     \<noteq> (Openness (RunPortalOps AAcousticPortalVolume_init [OpSetOpen False]) > 0.5)"
  by (simp add: RunPortalOps_def SetOpen_def AAcousticPortalVolume_init_def Let_def)

text \<open>
  C8, amended: in every portal state reached from the constructed portal (with any configured
  transition time) by any sequence of \<^verbatim>\<open>SetOpen\<close>, \<^verbatim>\<open>SetOpenness\<close> and transition ticks,
  \<^verbatim>\<open>bIsOpen\<close> is true exactly when the target openness is above 0.5; hence whenever the
  transition has settled (openness equal to its target), \<^verbatim>\<open>bIsOpen\<close> is true exactly when
  the openness is above 0.5.
\<close>

theorem C8_portal_open_follows_target:
  "bIsOpen (RunPortalOps (AAcousticPortalVolume_init\<lparr> TransitionTime := tt \<rparr>) ops)
     = (TargetOpenness (RunPortalOps (AAcousticPortalVolume_init\<lparr> TransitionTime := tt \<rparr>) ops)
          > 0.5)
   \<and> (Openness (RunPortalOps (AAcousticPortalVolume_init\<lparr> TransitionTime := tt \<rparr>) ops)
        = TargetOpenness (RunPortalOps (AAcousticPortalVolume_init\<lparr> TransitionTime := tt \<rparr>) ops)
      \<longrightarrow> bIsOpen (RunPortalOps (AAcousticPortalVolume_init\<lparr> TransitionTime := tt \<rparr>) ops)
          = (Openness (RunPortalOps (AAcousticPortalVolume_init\<lparr> TransitionTime := tt \<rparr>) ops)
               > 0.5))"
proof -
  have "bIsOpen (AAcousticPortalVolume_init\<lparr> TransitionTime := tt \<rparr>)
        = (TargetOpenness (AAcousticPortalVolume_init\<lparr> TransitionTime := tt \<rparr>) > 0.5)"
    by (simp add: AAcousticPortalVolume_init_def)
  from RunPortalOps_target_inv [OF this, of ops] show ?thesis by simp
qed

text \<open>A settled state: with no transition time, close the portal, set its openness to 0.8
  and tick once.\<close>

theorem C8_portal_open_follows_target_witness:
  "Openness (RunPortalOps (AAcousticPortalVolume_init\<lparr> TransitionTime := 0 \<rparr>)
               [OpSetOpen False, OpSetOpenness 0.8, OpUpdateTransition 0.1])
     = TargetOpenness (RunPortalOps (AAcousticPortalVolume_init\<lparr> TransitionTime := 0 \<rparr>)
                         [OpSetOpen False, OpSetOpenness 0.8, OpUpdateTransition 0.1])
   \<and> bIsOpen (RunPortalOps (AAcousticPortalVolume_init\<lparr> TransitionTime := 0 \<rparr>)
                [OpSetOpen False, OpSetOpenness 0.8, OpUpdateTransition 0.1])
   \<and> Openness (RunPortalOps (AAcousticPortalVolume_init\<lparr> TransitionTime := 0 \<rparr>)
                 [OpSetOpen False, OpSetOpenness 0.8, OpUpdateTransition 0.1]) > 0.5"
  using C8_portal_open_follows_target
          [of 0 "[OpSetOpen False, OpSetOpenness 0.8, OpUpdateTransition 0.1]"]
  by (simp add: RunPortalOps_def SetOpen_def SetOpenness_def UpdateTransition_def
      AAcousticPortalVolume_init_def Let_def FMath_Clamp_def FMath_IsNearlyEqual_def
      KINDA_SMALL_NUMBER_def)

subsection \<open>Low-pass cutoff\<close>

lemma spec_LPFCutoff_zero:
  "HighAbsorption m < 2 \<Longrightarrow> spec_LPFCutoff 0 m = 20000 * (1 - HighAbsorption m * 0.5)"
  by (simp add: spec_LPFCutoff_def FMath_Lerp_def Let_def)

lemma spec_LPFCutoff_half_sq:
  "HighAbsorption m < 2 \<Longrightarrow>
   (spec_LPFCutoff (1/2) m)\<^sup>2 = (20000 * (1 - HighAbsorption m * 0.5)) * (500 * (1 - HighAbsorption m * 0.5))"
proof -
  assume h: "HighAbsorption m < 2"
  define r where "r = 1 - HighAbsorption m * 0.5"
  have r: "r > 0" using h by (simp add: r_def)
  have "spec_LPFCutoff (1/2) m = exp ((ln (20000 * r) + ln (500 * r)) / 2)"
    by (simp add: spec_LPFCutoff_def FMath_Lerp_def Let_def r_def field_simps)
  then have "(spec_LPFCutoff (1/2) m)\<^sup>2 = exp (ln (20000 * r) + ln (500 * r))"
    by (simp add: power2_eq_square flip: exp_add)
  also have "\<dots> = (20000 * r) * (500 * r)"
    using r by (simp add: exp_add)
  finally show ?thesis by (simp add: r_def)
qed

text \<open>The repository's logarithmic helper does interpolate between the logarithms of the
  bounds it is given; \<^const>\<open>ComputeLPFFromOcclusion\<close> does not call it.\<close>

lemma CalculateLPFCutoffFromOcclusion_ends:
  assumes "0 < MinCutoff" and "0 < MaxCutoff"
  shows "CalculateLPFCutoffFromOcclusion 0 MinCutoff MaxCutoff = MaxCutoff"
    and "CalculateLPFCutoffFromOcclusion 1 MinCutoff MaxCutoff = MinCutoff"
  using assms by (simp_all add: CalculateLPFCutoffFromOcclusion_def FMath_Lerp_def Let_def)

text \<open>
  C4 as stated fails twice. At occlusion 0 the code returns the default cutoff 20000 Hz
  whatever the material, where the specification's formula gives the reduced default (17000 Hz
  for the default material, high-band absorption 0.3). At occlusion 1/2 on concrete the
  code's linear interpolation gives 10247.5 Hz, where the logarithmic interpolation gives the
  geometric mean of its ends, whose square is 9801000.
\<close>

theorem C4_counterexample:
  "ComputeLPFFromOcclusion 0 (CreateFromType Default) \<noteq> spec_LPFCutoff 0 (CreateFromType Default)
   \<and> ComputeLPFFromOcclusion (1/2) (CreateFromType Concrete)
       \<noteq> spec_LPFCutoff (1/2) (CreateFromType Concrete)"
proof
  have "spec_LPFCutoff 0 (CreateFromType Default) = 17000"
    by (subst spec_LPFCutoff_zero) simp_all
  moreover have "ComputeLPFFromOcclusion 0 (CreateFromType Default) = 20000"
    by (simp add: ComputeLPFFromOcclusion_def FMath_Lerp_def Let_def DefaultLPFCutoff_def)
  ultimately show "ComputeLPFFromOcclusion 0 (CreateFromType Default)
                    \<noteq> spec_LPFCutoff 0 (CreateFromType Default)" by simp
next
  have c: "ComputeLPFFromOcclusion (1/2) (CreateFromType Concrete) = 20495 / 2"
    by (simp add: ComputeLPFFromOcclusion_def FMath_Lerp_def Let_def DefaultLPFCutoff_def
        OccludedLPFCutoff_def)
  have sq: "(spec_LPFCutoff (1/2) (CreateFromType Concrete))\<^sup>2 = 9801000"
    by (subst spec_LPFCutoff_half_sq) simp_all
  show "ComputeLPFFromOcclusion (1/2) (CreateFromType Concrete)
              \<noteq> spec_LPFCutoff (1/2) (CreateFromType Concrete)"
  proof
    assume "ComputeLPFFromOcclusion (1/2) (CreateFromType Concrete)
              = spec_LPFCutoff (1/2) (CreateFromType Concrete)"
    then have e: "spec_LPFCutoff (1/2) (CreateFromType Concrete) = 20495 / 2"
      unfolding c by (rule sym)
    from sq show False
      unfolding e by (simp add: power2_eq_square)
  qed
qed

text \<open>
  C4, amended: for every occlusion value and every hit material, the derived low-pass cutoff
  is the linear interpolation between the default cutoff of 20 kHz, not reduced, and the
  occluded floor of 500 Hz reduced by the factor \<open>1 - highAbsorption * 0.5\<close>, parameterised
  by the occlusion: occlusion 0 gives 20 kHz and occlusion 1 gives the reduced floor.
\<close>

theorem C4_lpf_linear_interpolation:
  "ComputeLPFFromOcclusion occ m
     = FMath_Lerp 20000 (500 * (1 - HighAbsorption m * 0.5)) occ
   \<and> ComputeLPFFromOcclusion occ m = 20000 + occ * (500 * (1 - HighAbsorption m * 0.5) - 20000)
   \<and> ComputeLPFFromOcclusion 0 m = 20000
   \<and> ComputeLPFFromOcclusion 1 m = 500 * (1 - HighAbsorption m * 0.5)"
  by (simp add: ComputeLPFFromOcclusion_def FMath_Lerp_def Let_def DefaultLPFCutoff_def
      OccludedLPFCutoff_def)

subsection \<open>Priority score\<close>

text \<open>
  C5: for a source with no manual priority override (override below 0), the priority score
  is \<open>baseLoudness * (100 / max distance 1) * multiplier\<close> with the multipliers 0.25
  (Background), 1 (Normal) and 2 (Important), times 100 more for a hero-flagged source; a
  source of Critical importance scores \<^verbatim>\<open>FLT_MAX\<close>; and a source at distance 50 with
  loudness 1, Normal importance and no hero flag scores exactly 2.
\<close>

theorem C5_priority_score:
  "PriorityOverride Src < 0 \<longrightarrow>
     (Importance Src \<noteq> Critical \<longrightarrow>
        ComputePriorityScore Src L
          = BaseLoudness Src * (100 / max (Dist (GetAcousticLocation Src) L) 1)
            * (case Importance Src of Background \<Rightarrow> 0.25 | Normal \<Rightarrow> 1 | Important \<Rightarrow> 2
               | Critical \<Rightarrow> 10)
            * (if HasFlag Src IsHero then 100 else 1))
     \<and> (Importance Src = Critical \<longrightarrow> ComputePriorityScore Src L = FLT_MAX)
     \<and> (Dist (GetAcousticLocation Src) L = 50 \<and> BaseLoudness Src = 1
          \<and> Importance Src = Normal \<and> \<not> HasFlag Src IsHero
        \<longrightarrow> ComputePriorityScore Src L = 2)"
  by (cases "Importance Src")
     (auto simp: ComputePriorityScore_def ImportanceMultipliers_def Let_def)

text \<open>A default component 50 units from the listener, and a hero-flagged component of
  Critical importance.\<close>

theorem C5_priority_score_witness:
  "PriorityOverride (UAcousticSourceComponent_init\<lparr> ComponentLocation := FVector 50 0 0 \<rparr>) < 0
   \<and> Dist (GetAcousticLocation (UAcousticSourceComponent_init\<lparr> ComponentLocation := FVector 50 0 0 \<rparr>))
        ZeroVector = 50
   \<and> BaseLoudness (UAcousticSourceComponent_init\<lparr> ComponentLocation := FVector 50 0 0 \<rparr>) = 1
   \<and> Importance (UAcousticSourceComponent_init\<lparr> ComponentLocation := FVector 50 0 0 \<rparr>) = Normal
   \<and> \<not> HasFlag (UAcousticSourceComponent_init\<lparr> ComponentLocation := FVector 50 0 0 \<rparr>) IsHero
   \<and> ComputePriorityScore (UAcousticSourceComponent_init\<lparr> ComponentLocation := FVector 50 0 0 \<rparr>)
        ZeroVector = 2
   \<and> ComputePriorityScore
        (UAcousticSourceComponent_init\<lparr> Importance := Critical, SourceFlags := 1 \<rparr>) ZeroVector
       = FLT_MAX"
  using C5_priority_score [of "UAcousticSourceComponent_init\<lparr> ComponentLocation := FVector 50 0 0 \<rparr>" ZeroVector]
        C5_priority_score [of "UAcousticSourceComponent_init\<lparr> Importance := Critical, SourceFlags := 1 \<rparr>" ZeroVector]
  by (simp add: UAcousticSourceComponent_init_def GetAcousticLocation_def Dist_def ZeroVector_def HasFlag_def)

subsection \<open>Occlusion trace\<close>

lemma TraceOcclusion_hit:
  "GetWorld H = Some Trace \<Longrightarrow> Trace Start End = Some HR \<Longrightarrow>
   TraceOcclusion H (Some St) S Start End OutHit
     = (max 0 (min 1 ((1 - Transmission (GetAcousticMaterial S (PhysMaterial HR)))
                        * RealismFactor St)),
        OutHit\<lparr> bIsValidHit := True, HitLocation := ImpactPoint HR,
                 HitNormal := ImpactNormal HR, Distance := HitResult_Distance HR,
                 PhysicalMaterialName :=
                   (case PhysMaterial HR of Some n \<Rightarrow> n | None \<Rightarrow> PhysicalMaterialName OutHit),
                 Material := GetAcousticMaterial S (PhysMaterial HR) \<rparr>)"
  by (cases "PhysMaterial HR")
     (simp_all add: TraceOcclusion_def ComputeOcclusionFactor_def Let_def FMath_Clamp_01)

lemma TraceOcclusion_clear:
  "GetWorld H = Some Trace \<Longrightarrow> Trace Start End = None \<Longrightarrow>
   TraceOcclusion H (Some St) S Start End OutHit = (0, OutHit\<lparr> bIsValidHit := False \<rparr>)"
  by (simp add: TraceOcclusion_def)

text \<open>
  C3: for every occlusion trace, both through the query \<^verbatim>\<open>TraceOcclusion\<close> and in the update
  of a source by the occlusion pass: if the ray hits geometry with material \<open>m\<close>, the
  occlusion is \<open>clamp01 ((1 - m.transmission) * realismFactor)\<close> and the transmission gain is
  \<open>(1 - occlusion) + occlusion * m.transmission\<close>; if the ray is clear, the occlusion is 0
  and the transmission gain is 1. A hit on concrete at realism factor 0.7 gives occlusion
  0.7 and transmission gain 0.3.
\<close>

theorem C3_occlusion_and_transmission_gain:
  "(GetWorld H = Some Trace \<and> Trace L (GetAcousticLocation Src) = Some HR
      \<and> m = GetAcousticMaterial S (PhysMaterial HR)
    \<longrightarrow> fst (TraceOcclusion H (Some St) S L (GetAcousticLocation Src) FAcousticRayHit_init)
          = max 0 (min 1 ((1 - Transmission m) * RealismFactor St))
        \<and> Occlusion (CurrentParams (OcclusionUpdate H St S L t Src E))
          = max 0 (min 1 ((1 - Transmission m) * RealismFactor St))
        \<and> TransmissionGain (CurrentParams (OcclusionUpdate H St S L t Src E))
          = (1 - Occlusion (CurrentParams (OcclusionUpdate H St S L t Src E)))
            + Occlusion (CurrentParams (OcclusionUpdate H St S L t Src E)) * Transmission m)
   \<and> (GetWorld H = Some Trace \<and> Trace L (GetAcousticLocation Src) = None
    \<longrightarrow> fst (TraceOcclusion H (Some St) S L (GetAcousticLocation Src) FAcousticRayHit_init) = 0
        \<and> Occlusion (CurrentParams (OcclusionUpdate H St S L t Src E)) = 0
        \<and> TransmissionGain (CurrentParams (OcclusionUpdate H St S L t Src E)) = 1)
   \<and> (GetWorld H = Some Trace \<and> Trace L (GetAcousticLocation Src) = Some HR
      \<and> GetAcousticMaterial S (PhysMaterial HR) = CreateFromType Concrete
      \<and> RealismFactor St = 0.7
    \<longrightarrow> Occlusion (CurrentParams (OcclusionUpdate H St S L t Src E)) = 0.7
        \<and> TransmissionGain (CurrentParams (OcclusionUpdate H St S L t Src E)) = 0.3)"
proof (intro conjI impI)
  assume a: "GetWorld H = Some Trace \<and> Trace L (GetAcousticLocation Src) = Some HR
      \<and> m = GetAcousticMaterial S (PhysMaterial HR)"
  then have t: "TraceOcclusion H (Some St) S L (GetAcousticLocation Src) FAcousticRayHit_init
     = (max 0 (min 1 ((1 - Transmission m) * RealismFactor St)),
        FAcousticRayHit_init\<lparr> bIsValidHit := True, HitLocation := ImpactPoint HR,
                 HitNormal := ImpactNormal HR, Distance := HitResult_Distance HR,
                 PhysicalMaterialName :=
                   (case PhysMaterial HR of Some n \<Rightarrow> n
                    | None \<Rightarrow> PhysicalMaterialName FAcousticRayHit_init),
                 Material := m \<rparr>)"
    using TraceOcclusion_hit [of H Trace L "GetAcousticLocation Src" HR St S FAcousticRayHit_init]
    by simp
  show "fst (TraceOcclusion H (Some St) S L (GetAcousticLocation Src) FAcousticRayHit_init)
          = max 0 (min 1 ((1 - Transmission m) * RealismFactor St))"
    by (simp add: t)
  show "Occlusion (CurrentParams (OcclusionUpdate H St S L t Src E))
          = max 0 (min 1 ((1 - Transmission m) * RealismFactor St))"
    by (simp add: OcclusionUpdate_def Let_def t)
  show "TransmissionGain (CurrentParams (OcclusionUpdate H St S L t Src E))
          = (1 - Occlusion (CurrentParams (OcclusionUpdate H St S L t Src E)))
            + Occlusion (CurrentParams (OcclusionUpdate H St S L t Src E)) * Transmission m"
    by (simp add: OcclusionUpdate_def Let_def t)
next
  assume a: "GetWorld H = Some Trace \<and> Trace L (GetAcousticLocation Src) = None"
  then have t: "TraceOcclusion H (Some St) S L (GetAcousticLocation Src) FAcousticRayHit_init
     = (0, FAcousticRayHit_init\<lparr> bIsValidHit := False \<rparr>)"
    by (simp add: TraceOcclusion_clear)
  show "fst (TraceOcclusion H (Some St) S L (GetAcousticLocation Src) FAcousticRayHit_init) = 0"
    by (simp add: t)
  show "Occlusion (CurrentParams (OcclusionUpdate H St S L t Src E)) = 0"
    by (simp add: OcclusionUpdate_def Let_def t)
  show "TransmissionGain (CurrentParams (OcclusionUpdate H St S L t Src E)) = 1"
    by (simp add: OcclusionUpdate_def Let_def t)
next
  assume a: "GetWorld H = Some Trace \<and> Trace L (GetAcousticLocation Src) = Some HR
      \<and> GetAcousticMaterial S (PhysMaterial HR) = CreateFromType Concrete
      \<and> RealismFactor St = 0.7"
  then have t: "TraceOcclusion H (Some St) S L (GetAcousticLocation Src) FAcousticRayHit_init
     = (0.7,
        FAcousticRayHit_init\<lparr> bIsValidHit := True, HitLocation := ImpactPoint HR,
                 HitNormal := ImpactNormal HR, Distance := HitResult_Distance HR,
                 PhysicalMaterialName :=
                   (case PhysMaterial HR of Some n \<Rightarrow> n
                    | None \<Rightarrow> PhysicalMaterialName FAcousticRayHit_init),
                 Material := CreateFromType Concrete \<rparr>)"
    using TraceOcclusion_hit [of H Trace L "GetAcousticLocation Src" HR St S FAcousticRayHit_init]
    by simp
  show "Occlusion (CurrentParams (OcclusionUpdate H St S L t Src E)) = 0.7"
    by (simp add: OcclusionUpdate_def Let_def t)
  show "TransmissionGain (CurrentParams (OcclusionUpdate H St S L t Src E)) = 0.3"
    by (simp add: OcclusionUpdate_def Let_def t)
qed

text \<open>A listener at the origin facing a concrete wall, and the same listener in the open.\<close>

theorem C3_occlusion_and_transmission_gain_witness:
  "GetWorld (Example_Host Example_Trace_Wall (\<lambda>a. None)) = Some Example_Trace_Wall
   \<and> Example_Trace_Wall ZeroVector (GetAcousticLocation UAcousticSourceComponent_init)
       = Some \<lparr> ImpactPoint = ZeroVector, ImpactNormal = UpVector, HitResult_Distance = 100,
                PhysMaterial = Some ''Concrete'' \<rparr>
   \<and> GetAcousticMaterial Example_Subsystem (Some ''Concrete'') = CreateFromType Concrete
   \<and> RealismFactor UAcousticSettings_init = 0.7
   \<and> Occlusion (CurrentParams (OcclusionUpdate (Example_Host Example_Trace_Wall (\<lambda>a. None))
        UAcousticSettings_init Example_Subsystem ZeroVector 1 UAcousticSourceComponent_init
        FAcousticSourceEntry_init)) = 0.7
   \<and> TransmissionGain (CurrentParams (OcclusionUpdate (Example_Host Example_Trace_Wall (\<lambda>a. None))
        UAcousticSettings_init Example_Subsystem ZeroVector 1 UAcousticSourceComponent_init
        FAcousticSourceEntry_init)) = 0.3
   \<and> GetWorld (Example_Host Example_Trace_Clear (\<lambda>a. None)) = Some Example_Trace_Clear
   \<and> Example_Trace_Clear ZeroVector (GetAcousticLocation UAcousticSourceComponent_init) = None
   \<and> Occlusion (CurrentParams (OcclusionUpdate (Example_Host Example_Trace_Clear (\<lambda>a. None))
        UAcousticSettings_init Example_Subsystem ZeroVector 1 UAcousticSourceComponent_init
        FAcousticSourceEntry_init)) = 0
   \<and> TransmissionGain (CurrentParams (OcclusionUpdate (Example_Host Example_Trace_Clear (\<lambda>a. None))
        UAcousticSettings_init Example_Subsystem ZeroVector 1 UAcousticSourceComponent_init
        FAcousticSourceEntry_init)) = 1"
  using C3_occlusion_and_transmission_gain
          [of "Example_Host Example_Trace_Wall (\<lambda>a. None)" Example_Trace_Wall ZeroVector
              UAcousticSourceComponent_init
              "\<lparr> ImpactPoint = ZeroVector, ImpactNormal = UpVector, HitResult_Distance = 100,
                PhysMaterial = Some ''Concrete'' \<rparr>"
              "CreateFromType Concrete" Example_Subsystem UAcousticSettings_init 1
              FAcousticSourceEntry_init]
        C3_occlusion_and_transmission_gain
          [of "Example_Host Example_Trace_Clear (\<lambda>a. None)" Example_Trace_Clear ZeroVector
              UAcousticSourceComponent_init
              "\<lparr> ImpactPoint = ZeroVector, ImpactNormal = UpVector, HitResult_Distance = 100,
                PhysMaterial = Some ''Concrete'' \<rparr>"
              "CreateFromType Concrete" Example_Subsystem UAcousticSettings_init 1
              FAcousticSourceEntry_init]
  by (simp add: Example_Host_def Example_Trace_Wall_def Example_Trace_Clear_def
      Example_Subsystem_def GetAcousticMaterial_def GetAcousticLocation_def
      UAcousticSourceComponent_init_def UAcousticSettings_init_def Subsystem_init_def
      ZeroVector_def)

subsection \<open>Reflection clustering\<close>

lemma map_insort_key: "map f (insort_key f x xs) = insort (f x) (map f xs)"
  by (induction xs) simp_all

lemma map_sort_key: "map f (sort_key f xs) = sort (map f xs)"
  by (induction xs) (simp_all add: map_insort_key)

lemma ClusterLoop_length:
  "length (fst (ClusterLoop SH idx acc)) = length (fst acc)"
  by (induction SH idx acc rule: ClusterLoop.induct) (simp_all add: Let_def)

lemma ClusterLoop_nth:
  "distinct idx \<Longrightarrow> \<forall>i\<in>set idx. i < length Tps \<Longrightarrow>
   fst (ClusterLoop SH idx (Tps, d)) ! j
     = (if j \<in> set idx then TapFromHit (SH ! j) (Tps ! j) else Tps ! j)"
proof (induction idx arbitrary: Tps d)
  case Nil
  then show ?case by simp
next
  case (Cons i rest)
  have d: "distinct rest" and ni: "i \<notin> set rest" and il: "i < length Tps"
    using Cons.prems by simp_all
  have r: "\<forall>k\<in>set rest. k < length (Tps[i := TapFromHit (SH ! i) (Tps ! i)])"
    using Cons.prems by simp
  show ?case
    using Cons.IH [OF d r] ni il
    by (auto simp: Let_def nth_list_update)
qed

lemma TapFromHit_eq:
  "TapFromHit Hit FReflectionTap_init =
     \<lparr> DelayMs = (Distance Hit / 34300) * 1000,
       Gain = max 0 (min 1 ((1 / max (Distance Hit / 100) 1)
                             * (1 - GetAverageAbsorption (Material Hit)) * 0.5)),
       LPFCutoff = 20000 + HighAbsorption (Material Hit) * (3000 - 20000),
       Azimuth = 0, Elevation = 0, bIsValid = True \<rparr>"
  by (simp add: TapFromHit_def FReflectionTap_init_def Let_def SpeedOfSound_def
      DefaultLPFCutoff_def FMath_Lerp_def FMath_Clamp_01)

lemma ClusterReflections_empty:
  "ClusterReflections [] P = EarlyReflections_Reset P"
  by (simp add: ClusterReflections_def)

lemma ClusterReflections_fields:
  assumes "Hits \<noteq> []"
  shows "ReflectionDensity (ClusterReflections Hits P) = max 0 (min 1 (real (length Hits) / 20))"
    and "ValidTapCount (ClusterReflections Hits P) = int (min (length Hits) MaxTaps)"
    and "Taps (ClusterReflections Hits P)
          = fst (ClusterLoop (sort_key Distance Hits) [0..<min (length Hits) MaxTaps]
                   (map (\<lambda>Tap. FReflectionTap_init) (Taps P), 0))"
  using assms
  by (simp_all add: ClusterReflections_def EarlyReflections_Reset_def Let_def FMath_Clamp_01
      split: prod.splits)

text \<open>
  C6: for every list of ray hits, clustered into a parameter set that holds its \<^verbatim>\<open>MaxTaps\<close>
  taps: the reflection density is \<open>clamp01 (hitCount / 20)\<close>; the valid taps are the
  \<open>min hitCount 8\<close> first hits of the list sorted by ascending distance (a permutation of
  the hits whose distances are the sorted distances), tap \<open>i\<close> having
  \<open>delayMs = distance / 34300 * 1000\<close>,
  \<open>gain = clamp01 (1 / max (distance / 100) 1 * (1 - averageAbsorption) * 0.5)\<close> and the
  cutoff interpolated linearly from 20000 Hz to 3000 Hz by the high-band absorption; the
  remaining taps are invalid; with zero hits the valid tap count and the density are 0 and
  all taps are invalid.
\<close>

theorem C6_reflection_clustering:
  assumes "length (Taps P) = MaxTaps"
  shows "ReflectionDensity (ClusterReflections Hits P) = max 0 (min 1 (real (length Hits) / 20))
    \<and> ValidTapCount (ClusterReflections Hits P) = int (min (length Hits) 8)
    \<and> length (Taps (ClusterReflections Hits P)) = 8
    \<and> mset (sort_key Distance Hits) = mset Hits
    \<and> map Distance (sort_key Distance Hits) = sort (map Distance Hits)
    \<and> (\<forall>i. i < min (length Hits) 8 \<longrightarrow>
          Taps (ClusterReflections Hits P) ! i =
            \<lparr> DelayMs = (Distance (sort_key Distance Hits ! i) / 34300) * 1000,
              Gain = max 0 (min 1 ((1 / max (Distance (sort_key Distance Hits ! i) / 100) 1)
                       * (1 - GetAverageAbsorption (Material (sort_key Distance Hits ! i)))
                       * 0.5)),
              LPFCutoff = 20000 + HighAbsorption (Material (sort_key Distance Hits ! i))
                                    * (3000 - 20000),
              Azimuth = 0, Elevation = 0, bIsValid = True \<rparr>)
    \<and> (\<forall>i. min (length Hits) 8 \<le> i \<and> i < 8 \<longrightarrow>
          \<not> bIsValid (Taps (ClusterReflections Hits P) ! i))
    \<and> (Hits = [] \<longrightarrow>
          ValidTapCount (ClusterReflections Hits P) = 0
          \<and> ReflectionDensity (ClusterReflections Hits P) = 0
          \<and> (\<forall>Tap \<in> set (Taps (ClusterReflections Hits P)). \<not> bIsValid Tap))"
proof (cases "Hits = []")
  case True
  then show ?thesis
    using assms
    by (auto simp: ClusterReflections_empty EarlyReflections_Reset_def MaxTaps_def
        FReflectionTap_init_def)
next
  case False
  let ?n = "min (length Hits) MaxTaps"
  let ?T0 = "map (\<lambda>Tap. FReflectionTap_init) (Taps P)"
  have len0: "length ?T0 = 8" using assms by (simp add: MaxTaps_def)
  have taps: "Taps (ClusterReflections Hits P)
          = fst (ClusterLoop (sort_key Distance Hits) [0..<?n] (?T0, 0))"
    by (rule ClusterReflections_fields(3) [OF False])
  have inr: "\<forall>i\<in>set [0..<?n]. i < length ?T0"
    using len0 by (simp add: MaxTaps_def)
  have nth: "Taps (ClusterReflections Hits P) ! j
     = (if j < ?n then TapFromHit (sort_key Distance Hits ! j) (?T0 ! j) else ?T0 ! j)" for j
    unfolding taps using ClusterLoop_nth [OF _ inr, of "sort_key Distance Hits" 0 j] by simp
  have t0: "j < 8 \<Longrightarrow> ?T0 ! j = FReflectionTap_init" for j
    using assms by (simp add: MaxTaps_def)
  have 1: "ReflectionDensity (ClusterReflections Hits P) = max 0 (min 1 (real (length Hits) / 20))"
    by (rule ClusterReflections_fields(1) [OF False])
  have 2: "ValidTapCount (ClusterReflections Hits P) = int (min (length Hits) 8)"
    using ClusterReflections_fields(2) [OF False, of P] by (simp add: MaxTaps_def)
  have 3: "length (Taps (ClusterReflections Hits P)) = 8"
    unfolding taps using len0 by (simp add: ClusterLoop_length)
  have 4: "\<forall>i. i < min (length Hits) 8 \<longrightarrow>
          Taps (ClusterReflections Hits P) ! i =
            \<lparr> DelayMs = (Distance (sort_key Distance Hits ! i) / 34300) * 1000,
              Gain = max 0 (min 1 ((1 / max (Distance (sort_key Distance Hits ! i) / 100) 1)
                       * (1 - GetAverageAbsorption (Material (sort_key Distance Hits ! i)))
                       * 0.5)),
              LPFCutoff = 20000 + HighAbsorption (Material (sort_key Distance Hits ! i))
                                    * (3000 - 20000),
              Azimuth = 0, Elevation = 0, bIsValid = True \<rparr>"
  proof (intro allI impI)
    fix i assume i: "i < min (length Hits) 8"
    then have "i < ?n" and "i < 8" by (auto simp: MaxTaps_def)
    then have "Taps (ClusterReflections Hits P) ! i
               = TapFromHit (sort_key Distance Hits ! i) FReflectionTap_init"
      by (simp add: nth t0)
    then show "Taps (ClusterReflections Hits P) ! i =
            \<lparr> DelayMs = (Distance (sort_key Distance Hits ! i) / 34300) * 1000,
              Gain = max 0 (min 1 ((1 / max (Distance (sort_key Distance Hits ! i) / 100) 1)
                       * (1 - GetAverageAbsorption (Material (sort_key Distance Hits ! i)))
                       * 0.5)),
              LPFCutoff = 20000 + HighAbsorption (Material (sort_key Distance Hits ! i))
                                    * (3000 - 20000),
              Azimuth = 0, Elevation = 0, bIsValid = True \<rparr>"
      by (simp only: TapFromHit_eq)
  qed
  have 5: "\<forall>i. min (length Hits) 8 \<le> i \<and> i < 8 \<longrightarrow>
          \<not> bIsValid (Taps (ClusterReflections Hits P) ! i)"
  proof (intro allI impI)
    fix i assume i: "min (length Hits) 8 \<le> i \<and> i < 8"
    then have "\<not> i < ?n" and "i < 8" by (auto simp: MaxTaps_def)
    then have "Taps (ClusterReflections Hits P) ! i = FReflectionTap_init"
      by (auto simp: nth t0)
    then show "\<not> bIsValid (Taps (ClusterReflections Hits P) ! i)"
      by (simp add: FReflectionTap_init_def)
  qed
  show ?thesis
    using 1 2 3 4 5 False by (simp add: map_sort_key)
qed


text \<open>Two hits, the farther one first, and no hit at all.\<close>

theorem C6_reflection_clustering_witness:
  "length (Taps FEarlyReflectionParams_init) = MaxTaps
   \<and> ValidTapCount (ClusterReflections
         [FAcousticRayHit_init\<lparr> Distance := 686, bIsValidHit := True \<rparr>,
          FAcousticRayHit_init\<lparr> Distance := 343, Material := CreateFromType Concrete,
                                 bIsValidHit := True \<rparr>] FEarlyReflectionParams_init) = 2
   \<and> ReflectionDensity (ClusterReflections
         [FAcousticRayHit_init\<lparr> Distance := 686, bIsValidHit := True \<rparr>,
          FAcousticRayHit_init\<lparr> Distance := 343, Material := CreateFromType Concrete,
                                 bIsValidHit := True \<rparr>] FEarlyReflectionParams_init) = 1 / 10
   \<and> DelayMs (Taps (ClusterReflections
         [FAcousticRayHit_init\<lparr> Distance := 686, bIsValidHit := True \<rparr>,
          FAcousticRayHit_init\<lparr> Distance := 343, Material := CreateFromType Concrete,
                                 bIsValidHit := True \<rparr>] FEarlyReflectionParams_init) ! 0) = 10
   \<and> LPFCutoff (Taps (ClusterReflections
         [FAcousticRayHit_init\<lparr> Distance := 686, bIsValidHit := True \<rparr>,
          FAcousticRayHit_init\<lparr> Distance := 343, Material := CreateFromType Concrete,
                                 bIsValidHit := True \<rparr>] FEarlyReflectionParams_init) ! 0) = 19660
   \<and> DelayMs (Taps (ClusterReflections
         [FAcousticRayHit_init\<lparr> Distance := 686, bIsValidHit := True \<rparr>,
          FAcousticRayHit_init\<lparr> Distance := 343, Material := CreateFromType Concrete,
                                 bIsValidHit := True \<rparr>] FEarlyReflectionParams_init) ! 1) = 20
   \<and> \<not> bIsValid (Taps (ClusterReflections
         [FAcousticRayHit_init\<lparr> Distance := 686, bIsValidHit := True \<rparr>,
          FAcousticRayHit_init\<lparr> Distance := 343, Material := CreateFromType Concrete,
                                 bIsValidHit := True \<rparr>] FEarlyReflectionParams_init) ! 2)
   \<and> ValidTapCount (ClusterReflections [] FEarlyReflectionParams_init) = 0
   \<and> ReflectionDensity (ClusterReflections [] FEarlyReflectionParams_init) = 0
   \<and> \<not> bIsValid (Taps (ClusterReflections [] FEarlyReflectionParams_init) ! 0)"
proof -
  let ?hits = "[FAcousticRayHit_init\<lparr> Distance := 686, bIsValidHit := True \<rparr>,
          FAcousticRayHit_init\<lparr> Distance := 343, Material := CreateFromType Concrete,
                                 bIsValidHit := True \<rparr>]"
  have len: "length (Taps FEarlyReflectionParams_init) = MaxTaps"
    by (simp add: FEarlyReflectionParams_init_def)
  have srt: "sort_key Distance ?hits
     = [FAcousticRayHit_init\<lparr> Distance := 343, Material := CreateFromType Concrete,
                                 bIsValidHit := True \<rparr>,
        FAcousticRayHit_init\<lparr> Distance := 686, bIsValidHit := True \<rparr>]"
    by simp
  note a = C6_reflection_clustering [OF len, of ?hits]
  note b = C6_reflection_clustering [OF len, of "[]"]
  have a1: "ValidTapCount (ClusterReflections ?hits FEarlyReflectionParams_init) = 2"
    and a2: "ReflectionDensity (ClusterReflections ?hits FEarlyReflectionParams_init) = 1 / 10"
    using a by simp_all
  have a3: "DelayMs (Taps (ClusterReflections ?hits FEarlyReflectionParams_init) ! 0) = 10"
    and a4: "LPFCutoff (Taps (ClusterReflections ?hits FEarlyReflectionParams_init) ! 0) = 19660"
    using a unfolding srt by simp_all
  have a5: "DelayMs (Taps (ClusterReflections ?hits FEarlyReflectionParams_init) ! 1) = 20"
    using a unfolding srt by simp
  have a6: "\<not> bIsValid (Taps (ClusterReflections ?hits FEarlyReflectionParams_init) ! 2)"
    using a by simp
  have b1: "ValidTapCount (ClusterReflections [] FEarlyReflectionParams_init) = 0"
    and b2: "ReflectionDensity (ClusterReflections [] FEarlyReflectionParams_init) = 0"
    and b3: "\<not> bIsValid (Taps (ClusterReflections [] FEarlyReflectionParams_init) ! 0)"
    using b by simp_all
  show ?thesis
    using len a1 a2 a3 a4 a5 a6 b1 b2 b3 by blast
qed

subsection \<open>Hemisphere sampling\<close>

lemma Size_DotProduct: "Size V = sqrt (DotProduct V V)"
  by (simp add: Size_def DotProduct_def)

lemma hemisphere_unit:
  "DotProduct (FVector (sin a * cos b) (sin a * sin b) (cos a))
              (FVector (sin a * cos b) (sin a * sin b) (cos a)) = 1"
proof -
  have "(sin a * cos b)\<^sup>2 + (sin a * sin b)\<^sup>2 + (cos a)\<^sup>2
        = (sin a)\<^sup>2 * ((cos b)\<^sup>2 + (sin b)\<^sup>2) + (cos a)\<^sup>2"
    by (simp only: power_mult_distrib distrib_left)
  also have "\<dots> = 1" by simp
  finally show ?thesis by (simp add: DotProduct_def power2_eq_square)
qed

lemma hemisphere_up:
  "DotProduct (FVector (sin a * cos b) (sin a * sin b) (cos a)) UpVector = cos a"
  by (simp add: DotProduct_def UpVector_def)

lemma HemisphereDirection_props:
  assumes iso: "\<forall>U V. DotProduct (R U) (R V) = DotProduct U V"
      and up: "R UpVector = Nrm"
      and i: "int i < NumRays"
  shows "Size (HemisphereDirection R NumRays i) = 1"
    and "DotProduct (HemisphereDirection R NumRays i) Nrm = 1 - real i / real_of_int NumRays"
proof -
  let ?I = "arccos (1 - real i / real_of_int NumRays)"
  let ?A = "AngleIncrement * real i"
  let ?D = "FVector (sin ?I * cos ?A) (sin ?I * sin ?A) (cos ?I)"
  have d: "HemisphereDirection R NumRays i = R ?D"
    by (simp add: HemisphereDirection_def Let_def)
  have pos: "0 < real_of_int NumRays" using i by simp
  have lt: "real i < real_of_int NumRays" using i by linarith
  have t0: "0 \<le> real i / real_of_int NumRays" using pos by simp
  have t1: "real i / real_of_int NumRays < 1" using pos lt by simp
  have c: "cos ?I = 1 - real i / real_of_int NumRays"
    using t0 t1 by (intro cos_arccos) linarith+
  show "Size (HemisphereDirection R NumRays i) = 1"
    unfolding d Size_DotProduct using iso hemisphere_unit by simp
  have "DotProduct (R ?D) Nrm = DotProduct (R ?D) (R UpVector)" by (simp add: up)
  also have "\<dots> = DotProduct ?D UpVector" using iso by simp
  also have "\<dots> = cos ?I" by (rule hemisphere_up)
  finally show "DotProduct (HemisphereDirection R NumRays i) Nrm
                  = 1 - real i / real_of_int NumRays"
    unfolding d c .
qed

text \<open>
  C10: for every unit-length normal and every ray count \<open>N \<ge> 1\<close>, the hemisphere direction
  generator returns exactly \<open>N\<close> directions, each of unit length and each with a strictly
  positive dot product with the normal. The host's
  \<^verbatim>\<open>FQuat::FindBetweenNormals(UpVector, Normal)\<close> enters by its contract: a rotation
  (it preserves dot products) that takes the up vector to the normal.
\<close>

theorem C10_hemisphere_rays:
  assumes "NumRays \<ge> 1"
      and "Size Nrm = 1"
      and "\<forall>U V. DotProduct (FindBetweenNormals H UpVector Nrm U)
                            (FindBetweenNormals H UpVector Nrm V) = DotProduct U V"
      and "FindBetweenNormals H UpVector Nrm UpVector = Nrm"
  shows "length (GenerateHemisphereRays H Nrm NumRays) = nat NumRays
       \<and> (\<forall>D \<in> set (GenerateHemisphereRays H Nrm NumRays).
             Size D = 1 \<and> DotProduct D Nrm > 0)"
proof
  show "length (GenerateHemisphereRays H Nrm NumRays) = nat NumRays"
    by (simp add: GenerateHemisphereRays_def Let_def)
  show "\<forall>D \<in> set (GenerateHemisphereRays H Nrm NumRays). Size D = 1 \<and> DotProduct D Nrm > 0"
  proof
    fix D assume "D \<in> set (GenerateHemisphereRays H Nrm NumRays)"
    then obtain i where i: "i < nat NumRays"
      and D: "D = HemisphereDirection (FindBetweenNormals H UpVector Nrm) NumRays i"
      by (auto simp: GenerateHemisphereRays_def Let_def)
    have ii: "int i < NumRays" using i by linarith
    have pos: "0 < real_of_int NumRays" using assms(1) by simp
    have "real i < real_of_int NumRays" using ii by linarith
    then have "real i / real_of_int NumRays < 1" using pos by simp
    then show "Size D = 1 \<and> DotProduct D Nrm > 0"
      unfolding D
      using HemisphereDirection_props [OF assms(3) assms(4) ii] by simp
  qed
qed

text \<open>Four rays around the up vector, where the rotation is the identity.\<close>

theorem C10_hemisphere_rays_witness:
  "(4::int) \<ge> 1
   \<and> Size UpVector = 1
   \<and> (\<forall>U V. DotProduct
               (FindBetweenNormals (Example_Host Example_Trace_Clear (\<lambda>a. None)) UpVector UpVector U)
               (FindBetweenNormals (Example_Host Example_Trace_Clear (\<lambda>a. None)) UpVector UpVector V)
             = DotProduct U V)
   \<and> FindBetweenNormals (Example_Host Example_Trace_Clear (\<lambda>a. None)) UpVector UpVector UpVector
       = UpVector
   \<and> length (GenerateHemisphereRays (Example_Host Example_Trace_Clear (\<lambda>a. None)) UpVector 4) = 4
   \<and> Size (GenerateHemisphereRays (Example_Host Example_Trace_Clear (\<lambda>a. None)) UpVector 4 ! 3) = 1
   \<and> DotProduct (GenerateHemisphereRays (Example_Host Example_Trace_Clear (\<lambda>a. None)) UpVector 4 ! 3)
        UpVector > 0"
proof -
  let ?H = "Example_Host Example_Trace_Clear (\<lambda>a. None)"
  have h1: "(4::int) \<ge> 1" by simp
  have h2: "Size UpVector = 1" by (simp add: Size_def UpVector_def)
  have h3: "\<forall>U V. DotProduct (FindBetweenNormals ?H UpVector UpVector U)
                              (FindBetweenNormals ?H UpVector UpVector V) = DotProduct U V"
    by (simp add: Example_Host_def)
  have h4: "FindBetweenNormals ?H UpVector UpVector UpVector = UpVector"
    by (simp add: Example_Host_def)
  note t = C10_hemisphere_rays [OF h1 h2 h3 h4]
  have l: "length (GenerateHemisphereRays ?H UpVector 4) = 4" using t by simp
  then have "GenerateHemisphereRays ?H UpVector 4 ! 3 \<in> set (GenerateHemisphereRays ?H UpVector 4)"
    by simp
  then have "Size (GenerateHemisphereRays ?H UpVector 4 ! 3) = 1
     \<and> DotProduct (GenerateHemisphereRays ?H UpVector 4 ! 3) UpVector > 0"
    using t by blast
  then show ?thesis using h1 h2 h3 h4 l by blast
qed

subsection \<open>Source registration\<close>




































subsection \<open>Master limiter\<close>

lemma foldl_max_ge_init:
  "(a::real) \<le> foldl (\<lambda>m x. max m (f x)) a xs"
proof (induction xs arbitrary: a)
  case Nil
  then show ?case by simp
next
  case (Cons x xs)
  have "a \<le> max a (f x)" by simp
  also have "\<dots> \<le> foldl (\<lambda>m x. max m (f x)) (max a (f x)) xs" by (rule Cons.IH)
  finally show ?case by simp
qed

lemma foldl_max_ge_elem:
  "x \<in> set xs \<Longrightarrow> f x \<le> foldl (\<lambda>m x. max m (f x)) (a::real) xs"
proof (induction xs arbitrary: a)
  case Nil
  then show ?case by simp
next
  case (Cons y ys)
  show ?case
  proof (cases "x = y")
    case True
    have "f x \<le> max a (f y)" using True by simp
    also have "\<dots> \<le> foldl (\<lambda>m x. max m (f x)) (max a (f y)) ys" by (rule foldl_max_ge_init)
    finally show ?thesis by simp
  next
    case False
    then have "x \<in> set ys" using Cons.prems by simp
    from Cons.IH [OF this] show ?thesis by simp
  qed
qed

lemma FrameMaxAbs_ge: "x \<in> set Samples \<Longrightarrow> \<bar>x * G\<bar> \<le> FrameMaxAbs G Samples"
  unfolding FrameMaxAbs_def by (rule foldl_max_ge_elem [where f = "\<lambda>x. \<bar>x * G\<bar>"])

lemma FrameMaxAbs_nonneg: "0 \<le> FrameMaxAbs G Samples"
  unfolding FrameMaxAbs_def by (rule foldl_max_ge_init)

lemma LimiterThreshold_pos: "0 < LimiterThreshold E"
  by (simp add: LimiterThreshold_def)

lemma ProcessFrame_out:
  "snd (ProcessFrame E Samples)
     = map (\<lambda>x. x * (SmoothedOutputGain (fst (ProcessFrame E Samples))
                        * LimiterGain (fst (ProcessFrame E Samples)))) Samples"
  by (simp add: ProcessFrame_def Let_def)

lemma ProcessFrame_gain:
  "LimiterGain (fst (ProcessFrame E Samples))
     = (if LimiterEnvelope (fst (ProcessFrame E Samples)) > LimiterThreshold E
        then LimiterThreshold E / LimiterEnvelope (fst (ProcessFrame E Samples)) else 1)"
  by (simp add: ProcessFrame_def Let_def)

lemma first_frame_overshoot:
  assumes a: "0 < a" "a < (1::real)" and T: "0 < T" "T < 1"
  shows "T < (if 1 - a > T then T / (1 - a) else 1)"
proof (cases "1 - a > T")
  case True
  have "T * (1 - a) < T * 1" using a T by (intro mult_strict_left_mono) simp_all
  then have "T < T / (1 - a)" using a by (simp add: field_simps)
  then show ?thesis using True by simp
next
  case False
  then show ?thesis using T by simp
qed

text \<open>
  C7 as stated fails: with the default settings (limiter enabled, threshold -1 dB, output gain
  0 dB) at 48 kHz, the first sample of a block that starts at full scale (amplitude 1) leaves
  the freshly initialised master stage above the threshold. The envelope follower starts
  at 0 and rises with a 1 ms attack, so after one sample it is only \<open>1 - AttackCoeff\<close>;
  whether or not this is above the threshold, the output sample is.
\<close>

theorem C7_counterexample:
  "bEnabled (CurrentSettings (MasterEffect_Init FAcousticMasterEffect_init 48000))
   \<and> \<bar>hd (snd (OnProcessAudio (MasterEffect_Init FAcousticMasterEffect_init 48000) [1] 1 1))\<bar>
       > LimiterThreshold (MasterEffect_Init FAcousticMasterEffect_init 48000)"
proof -
  let ?E = "MasterEffect_Init FAcousticMasterEffect_init 48000"
  let ?a = "AttackCoeff ?E"
  let ?T = "LimiterThreshold ?E"
  have en: "bEnabled (CurrentSettings ?E)"
    by (simp add: MasterEffect_Init_def FAcousticMasterEffect_init_def
        FAcousticMasterSettings_init_def)
  have a: "0 < ?a" "?a < 1"
    by (simp_all add: AttackCoeff_def MasterEffect_Init_def)
  have "(10::real) powr (- 1 / 20) < 10 powr 0"
    by (rule powr_less_mono) simp_all
  then have T: "0 < ?T" "?T < 1"
    by (simp_all add: LimiterThreshold_def MasterEffect_Init_def FAcousticMasterEffect_init_def
        FAcousticMasterSettings_init_def)
  have tg: "TargetGain ?E = 1"
    by (simp add: TargetGain_def MasterEffect_Init_def FAcousticMasterEffect_init_def
        FAcousticMasterSettings_init_def)
  have sm: "SmoothedOutputGain ?E = 1" and env: "LimiterEnvelope ?E = 0"
    by (simp_all add: MasterEffect_Init_def)
  have s1: "GainSmoothCoeff ?E * 1 + (1 - GainSmoothCoeff ?E) * 1 = 1" by simp
  have out: "snd (ProcessFrame ?E [1]) = [if 1 - ?a > ?T then ?T / (1 - ?a) else 1]"
    using a by (simp add: ProcessFrame_def Let_def FrameMaxAbs_def tg sm env)
  have "snd (OnProcessAudio ?E [1] 1 1) = snd (ProcessFrame ?E [1])"
    using en by (simp add: OnProcessAudio_def split: prod.splits)
  then have "hd (snd (OnProcessAudio ?E [1] 1 1)) = (if 1 - ?a > ?T then ?T / (1 - ?a) else 1)"
    using out by simp
  moreover have "?T < (if 1 - ?a > ?T then ?T / (1 - ?a) else 1)"
    by (rule first_frame_overshoot [OF a T])
  ultimately have "\<bar>hd (snd (OnProcessAudio ?E [1] 1 1))\<bar> > ?T"
    by linarith
  then show ?thesis using en by blast
qed

text \<open>
  C7, amended: when the master limiter stage is enabled, every output sample of a frame is the
  input sample times the smoothed output gain times the limiter gain, which is
  \<open>threshold / envelope\<close> when the envelope exceeds the threshold
  \<open>10 powr (LimiterThresholdDb / 20)\<close> and 1 otherwise; and in every frame in which the
  envelope follower, after its attack or release step, has reached the frame's peak (the
  largest absolute input sample times the smoothed output gain), the absolute amplitude of every
  output sample of the frame is at most the threshold. The statement is about the body of the
  frame loop in any state of the effect, hence about every frame of every block.
\<close>

theorem C7_limiter_bound_once_envelope_covers_peak:
  "snd (ProcessFrame E Samples)
     = map (\<lambda>x. x * (SmoothedOutputGain (fst (ProcessFrame E Samples))
                        * LimiterGain (fst (ProcessFrame E Samples)))) Samples
   \<and> LimiterGain (fst (ProcessFrame E Samples))
       = (if LimiterEnvelope (fst (ProcessFrame E Samples)) > LimiterThreshold E
          then LimiterThreshold E / LimiterEnvelope (fst (ProcessFrame E Samples)) else 1)
   \<and> LimiterThreshold E = 10 powr (LimiterThresholdDb (CurrentSettings E) / 20)
   \<and> (FrameMaxAbs (SmoothedOutputGain (fst (ProcessFrame E Samples))) Samples
          \<le> LimiterEnvelope (fst (ProcessFrame E Samples))
        \<longrightarrow> (\<forall>y \<in> set (snd (ProcessFrame E Samples)). \<bar>y\<bar> \<le> LimiterThreshold E))"
proof (intro conjI impI ballI)
  show "snd (ProcessFrame E Samples)
     = map (\<lambda>x. x * (SmoothedOutputGain (fst (ProcessFrame E Samples))
                        * LimiterGain (fst (ProcessFrame E Samples)))) Samples"
    by (rule ProcessFrame_out)
  show "LimiterGain (fst (ProcessFrame E Samples))
       = (if LimiterEnvelope (fst (ProcessFrame E Samples)) > LimiterThreshold E
          then LimiterThreshold E / LimiterEnvelope (fst (ProcessFrame E Samples)) else 1)"
    by (rule ProcessFrame_gain)
  show "LimiterThreshold E = 10 powr (LimiterThresholdDb (CurrentSettings E) / 20)"
    by (rule LimiterThreshold_def)
next
  fix y
  assume cover: "FrameMaxAbs (SmoothedOutputGain (fst (ProcessFrame E Samples))) Samples
                   \<le> LimiterEnvelope (fst (ProcessFrame E Samples))"
    and "y \<in> set (snd (ProcessFrame E Samples))"
  let ?E = "fst (ProcessFrame E Samples)"
  let ?S = "SmoothedOutputGain ?E"
  let ?env = "LimiterEnvelope ?E"
  let ?T = "LimiterThreshold E"
  from \<open>y \<in> set (snd (ProcessFrame E Samples))\<close>
  obtain x where x: "x \<in> set Samples" and y: "y = x * (?S * LimiterGain ?E)"
    by (subst (asm) ProcessFrame_out) auto
  have p: "\<bar>x * ?S\<bar> \<le> ?env"
    using FrameMaxAbs_ge [OF x, of ?S] cover by linarith
  have T: "0 < ?T" by (rule LimiterThreshold_pos)
  show "\<bar>y\<bar> \<le> ?T"
  proof (cases "?env > ?T")
    case True
    then have env: "0 < ?env" using T by linarith
    have g: "LimiterGain ?E = ?T / ?env" using True by (simp add: ProcessFrame_gain)
    have "\<bar>y\<bar> = \<bar>x * ?S\<bar> * (?T / ?env)"
      unfolding y g using T env by (simp add: abs_mult)
    also have "\<dots> \<le> ?env * (?T / ?env)"
      using p T env by (intro mult_right_mono) simp_all
    also have "\<dots> = ?T" using env by simp
    finally show ?thesis .
  next
    case False
    then have g: "LimiterGain ?E = 1" by (simp add: ProcessFrame_gain)
    have "\<bar>y\<bar> = \<bar>x * ?S\<bar>" unfolding y g by simp
    then show ?thesis using p False by linarith
  qed
qed

text \<open>A full-scale sample arriving when the envelope stands at 2.\<close>

theorem C7_limiter_bound_once_envelope_covers_peak_witness:
  "FrameMaxAbs (SmoothedOutputGain (fst (ProcessFrame
       (FAcousticMasterEffect_init\<lparr> LimiterEnvelope := 2 \<rparr>) [1]))) [1]
     \<le> LimiterEnvelope (fst (ProcessFrame (FAcousticMasterEffect_init\<lparr> LimiterEnvelope := 2 \<rparr>) [1]))
   \<and> \<bar>hd (snd (ProcessFrame (FAcousticMasterEffect_init\<lparr> LimiterEnvelope := 2 \<rparr>) [1]))\<bar>
       \<le> LimiterThreshold (FAcousticMasterEffect_init\<lparr> LimiterEnvelope := 2 \<rparr>)"
proof -
  let ?E = "FAcousticMasterEffect_init\<lparr> LimiterEnvelope := 2 \<rparr>"
  have tg: "TargetGain ?E = 1"
    by (simp add: TargetGain_def FAcousticMasterEffect_init_def FAcousticMasterSettings_init_def)
  have s0: "SmoothedOutputGain ?E = 1" and e0: "LimiterEnvelope ?E = 2"
    by (simp_all add: FAcousticMasterEffect_init_def)
  have sm: "SmoothedOutputGain (fst (ProcessFrame ?E [1])) = 1"
    by (simp add: ProcessFrame_def Let_def tg s0)
  have env: "LimiterEnvelope (fst (ProcessFrame ?E [1])) = 1 + ReleaseCoeff ?E"
    by (simp add: ProcessFrame_def Let_def tg s0 e0 FrameMaxAbs_def algebra_simps)
  have r: "0 < ReleaseCoeff ?E" by (simp add: ReleaseCoeff_def)
  have h: "FrameMaxAbs (SmoothedOutputGain (fst (ProcessFrame ?E [1]))) [1]
             \<le> LimiterEnvelope (fst (ProcessFrame ?E [1]))"
    unfolding sm env using r by (simp add: FrameMaxAbs_def)
  have "hd (snd (ProcessFrame ?E [1])) \<in> set (snd (ProcessFrame ?E [1]))"
    by (simp add: ProcessFrame_out)
  then have "\<bar>hd (snd (ProcessFrame ?E [1]))\<bar> \<le> LimiterThreshold ?E"
    using C7_limiter_bound_once_envelope_covers_peak
            [of ?E "[1]", THEN conjunct2, THEN conjunct2, THEN conjunct2, rule_format, OF h]
    by blast
  then show ?thesis using h by blast
qed

subsection \<open>Level-of-detail caps\<close>

lemma Example_Registered_sources:
  "RegisteredSources Example_Registered
     = [(1, FAcousticSourceEntry_init\<lparr> SourceComponent := Some 1, SourceId := 1,
              CurrentParams := Params_Reset FAcousticSourceParams_init,
              PreviousParams := Params_Reset FAcousticSourceParams_init,
              EffectiveLOD := Hero \<rparr>),
        (2, FAcousticSourceEntry_init\<lparr> SourceComponent := Some 2, SourceId := 2,
              CurrentParams := Params_Reset FAcousticSourceParams_init,
              PreviousParams := Params_Reset FAcousticSourceParams_init,
              EffectiveLOD := Advanced \<rparr>)]"
  by (simp add: Example_Registered_def Example_Subsystem_def RegisterSource_def int32_wrap_def
      Subsystem_init_def Let_def TMap_Add_def FAcousticSourceEntry_init_def WeakGetPtr_def
      WeakGet_def Example_Host_def Example_Objects_def UAcousticSourceComponent_init_def)

lemma Example_Registered_listener:
  "ListenerDataArray Example_Registered = [FAcousticListenerData_init]"
  by (simp add: Example_Registered_def Example_Subsystem_def RegisterSource_def
      Subsystem_init_def Let_def split: option.splits)

text \<open>
  C2 fails on the code in its second half. With the caps \<^verbatim>\<open>MaxHeroSources = 1\<close> and
  \<^verbatim>\<open>MaxAdvancedSources = 1\<close>, a hero-LOD source and an advanced-LOD source, both within
  the basic-LOD distance of the listener, leave the LOD-assignment pass as Hero and Advanced:
  two sources at Advanced or Hero against a cap of one. The pass counts hero sources only
  in \<^verbatim>\<open>HeroCount\<close>, never in \<^verbatim>\<open>AdvancedCount\<close>, although the settings document
  \<^verbatim>\<open>MaxAdvancedSources\<close> as the maximum of concurrent sources at Advanced+ LOD.
\<close>

theorem C2_advanced_cap_exceeded:
  "map (\<lambda>p. EffectiveLOD (snd p))
     (RegisteredSources
        (UpdateSourcePriorities (Example_Host Example_Trace_Wall Example_Objects) Example_Caps
           Example_Registered))
     = [Hero, Advanced]
   \<and> int (length (filter (\<lambda>p. EffectiveLOD (snd p) = Advanced \<or> EffectiveLOD (snd p) = Hero)
          (RegisteredSources
             (UpdateSourcePriorities (Example_Host Example_Trace_Wall Example_Objects)
                Example_Caps Example_Registered))))
       > MaxAdvancedSources Example_Caps
   \<and> MaxHeroSources Example_Caps = 1
   \<and> MaxAdvancedSources Example_Caps = 1"
  by (simp add: UpdateSourcePriorities_def Example_Registered_sources
      Example_Registered_listener Let_def FAcousticListenerData_init_def
      WeakGet_def Example_Host_def Example_Objects_def UAcousticSourceComponent_init_def
      GetAcousticLocation_def Dist_def ZeroVector_def MinDistance_def ComputePriorityScore_def
      ImportanceMultipliers_def
      HasFlag_def AssignLOD_def TMap_Find_def TMap_Set_def Example_Caps_def
      UAcousticSettings_init_def FAcousticSourceEntry_init_def Params_Reset_def
      FAcousticSourceParams_init_def)


subsection \<open>Ray budget\<close>

lemma OcclusionStep_Break_iff:
  "TotalRaysUsed B \<ge> TotalRaysBudget B \<Longrightarrow>
   OcclusionStep H St S L t Entry B = (if EffectiveLOD Entry = Off then Continue else Break)"
  by (simp add: OcclusionStep_def)

lemma OcclusionStep_Trace_budget:
  "OcclusionStep H St S L t Entry B = TraceAndUpdate Entry' \<Longrightarrow>
   TotalRaysUsed B < TotalRaysBudget B \<and> EffectiveLOD Entry' = EffectiveLOD Entry"
  by (auto simp: OcclusionStep_def OcclusionUpdate_def Let_def
      split: if_splits option.splits prod.splits)

lemma ProcessOcclusion_loop_exhausted:
  "TotalRaysUsed B \<ge> TotalRaysBudget B \<Longrightarrow>
   ProcessOcclusion_loop H St S L t Entries B = (Entries, B, [])"
proof (induction Entries)
  case Nil
  then show ?case by simp
next
  case (Cons p rest)
  obtain k e where p: "p = (k, e)" by (cases p)
  show ?case
    using Cons by (simp add: p OcclusionStep_Break_iff)
qed

lemma ProcessOcclusion_loop_budget:
  "ProcessOcclusion_loop H St S L t Entries B = (Es, B', Rays) \<Longrightarrow>
   TotalRaysBudget B' = TotalRaysBudget B
   \<and> TotalRaysUsed B' = TotalRaysUsed B + int (length Rays)
   \<and> (TotalRaysUsed B \<le> TotalRaysBudget B \<longrightarrow> TotalRaysUsed B' \<le> TotalRaysBudget B)
   \<and> map fst Es = map fst Entries
   \<and> map (\<lambda>p. EffectiveLOD (snd p)) Es = map (\<lambda>p. EffectiveLOD (snd p)) Entries"
proof (induction Entries arbitrary: B Es B' Rays)
  case Nil
  then show ?case by simp
next
  case (Cons p rest)
  obtain k e where p: "p = (k, e)" by (cases p)
  show ?case
  proof (cases "OcclusionStep H St S L t e B")
    case Continue
    obtain Es1 B1 R1 where r: "ProcessOcclusion_loop H St S L t rest B = (Es1, B1, R1)"
      by (cases "ProcessOcclusion_loop H St S L t rest B")
    from Cons.prems have "Es = (k, e) # Es1" "B' = B1" "Rays = R1"
      by (simp_all add: p Continue r)
    then show ?thesis using Cons.IH [OF r] by (auto simp: p)
  next
    case Break
    from Cons.prems have "Es = (k, e) # rest" "B' = B" "Rays = []"
      by (simp_all add: p Break)
    then show ?thesis by (simp add: p)
  next
    case (TraceAndUpdate e')
    let ?B = "B\<lparr> OcclusionRays := OcclusionRays B + 1, TotalRaysUsed := TotalRaysUsed B + 1 \<rparr>"
    obtain Es1 B1 R1 where r: "ProcessOcclusion_loop H St S L t rest ?B = (Es1, B1, R1)"
      by (cases "ProcessOcclusion_loop H St S L t rest ?B")
    from Cons.prems have eq: "Es = (k, e') # Es1" "B' = B1" "Rays = k # R1"
      by (simp_all add: p TraceAndUpdate r Let_def)
    have lt: "TotalRaysUsed B < TotalRaysBudget B" and lod: "EffectiveLOD e' = EffectiveLOD e"
      using OcclusionStep_Trace_budget [OF TraceAndUpdate] by simp_all
    show ?thesis using Cons.IH [OF r] eq lt lod by (auto simp: p)
  qed
qed

lemma SampleReflections_cast:
  "snd (SampleReflections H (Some St) S Origin Fwd NumRays OutHits) = 0
   \<or> snd (SampleReflections H (Some St) S Origin Fwd NumRays OutHits) = nat NumRays"
  by (simp add: SampleReflections_def GenerateHemisphereRays_def Let_def split: option.splits)

lemma ReflectionUpdate_step:
  assumes "ReflectionUpdate H St S Listener t Entry B = (Entry', B', n)"
  shows "TotalRaysBudget B' = TotalRaysBudget B"
    and "EffectiveLOD Entry' = EffectiveLOD Entry"
    and "n = 0 \<and> B' = B \<or>
         (EffectiveLOD Entry = Advanced \<or> EffectiveLOD Entry = Hero)
         \<and> TotalRaysUsed B + RaysForLOD St (EffectiveLOD Entry) \<le> TotalRaysBudget B
         \<and> TotalRaysUsed B' = TotalRaysUsed B + RaysForLOD St (EffectiveLOD Entry)
         \<and> (n = 0 \<or> n = nat (RaysForLOD St (EffectiveLOD Entry)))"
proof -
  show "TotalRaysBudget B' = TotalRaysBudget B"
    using assms
    by (auto simp: ReflectionUpdate_def Let_def split: if_splits option.splits prod.splits)
  show "EffectiveLOD Entry' = EffectiveLOD Entry"
    using assms
    by (auto simp: ReflectionUpdate_def Let_def split: if_splits option.splits prod.splits)
  show "n = 0 \<and> B' = B \<or>
         (EffectiveLOD Entry = Advanced \<or> EffectiveLOD Entry = Hero)
         \<and> TotalRaysUsed B + RaysForLOD St (EffectiveLOD Entry) \<le> TotalRaysBudget B
         \<and> TotalRaysUsed B' = TotalRaysUsed B + RaysForLOD St (EffectiveLOD Entry)
         \<and> (n = 0 \<or> n = nat (RaysForLOD St (EffectiveLOD Entry)))"
  proof (cases "EffectiveLOD Entry \<noteq> Advanced \<and> EffectiveLOD Entry \<noteq> Hero")
    case True
    then show ?thesis using assms
      by (auto simp: ReflectionUpdate_def Let_def split: if_splits)
  next
    case False
    let ?N = "RaysForLOD St (EffectiveLOD Entry)"
    have N: "(if EffectiveLOD Entry = Hero then HeroReflectionRays St
              else AdvancedReflectionRays St) = ?N" by (simp add: RaysForLOD_def)
    show ?thesis
    proof (cases "TotalRaysUsed B + ?N > TotalRaysBudget B")
      case True
      then show ?thesis using assms False
        by (auto simp: ReflectionUpdate_def Let_def N)
    next
      case fits: False
      show ?thesis
      proof (cases "WeakGet H (SourceComponent Entry)")
        case None
        then show ?thesis using assms False fits
          by (auto simp: ReflectionUpdate_def Let_def N)
      next
        case (Some Source)
        obtain Hits c where sr: "SampleReflections H (Some St) S (Location Listener)
                          (Forward Listener) ?N [] = (Hits, c)"
          by (cases "SampleReflections H (Some St) S (Location Listener) (Forward Listener) ?N []")
        have c: "c = 0 \<or> c = nat ?N"
          using SampleReflections_cast [of H St S "Location Listener" "Forward Listener" ?N "[]"] sr
          by simp
        have "n = c" and "TotalRaysUsed B' = TotalRaysUsed B + ?N"
          using assms False fits Some sr
          by (auto simp: ReflectionUpdate_def Let_def N)
        then show ?thesis using c False fits by auto
      qed
    qed
  qed
qed


lemma ProcessReflections_loop_budget:
  "ProcessReflections_loop H St S Listener t Entries B = (Es, B', Cs) \<Longrightarrow>
   TotalRaysBudget B' = TotalRaysBudget B
   \<and> (TotalRaysUsed B \<le> TotalRaysBudget B \<longrightarrow> TotalRaysUsed B' \<le> TotalRaysBudget B)
   \<and> (0 \<le> AdvancedReflectionRays St \<and> 0 \<le> HeroReflectionRays St
        \<longrightarrow> TotalRaysUsed B + int (sum_list (map snd Cs)) \<le> TotalRaysUsed B')
   \<and> map fst Es = map fst Entries
   \<and> map (\<lambda>p. EffectiveLOD (snd p)) Es = map (\<lambda>p. EffectiveLOD (snd p)) Entries
   \<and> list_all2 (\<lambda>p c. fst c = fst p
                  \<and> (snd c = 0 \<or> snd c = nat (RaysForLOD St (EffectiveLOD (snd p))))) Es Cs"
proof (induction Entries arbitrary: B Es B' Cs)
  case Nil
  then show ?case by simp
next
  case (Cons p rest)
  obtain k e where p: "p = (k, e)" by (cases p)
  obtain e1 B1 n where u: "ReflectionUpdate H St S Listener t e B = (e1, B1, n)"
    by (cases "ReflectionUpdate H St S Listener t e B")
  obtain Es2 B2 Cs2 where r: "ProcessReflections_loop H St S Listener t rest B1 = (Es2, B2, Cs2)"
    by (cases "ProcessReflections_loop H St S Listener t rest B1")
  from Cons.prems have eq: "Es = (k, e1) # Es2" "B' = B2" "Cs = (k, n) # Cs2"
    by (simp_all add: p u r)
  note st = ReflectionUpdate_step [OF u]
  note ih = Cons.IH [OF r]
  have bud: "TotalRaysBudget B2 = TotalRaysBudget B" using ih st(1) by simp
  have le: "TotalRaysUsed B \<le> TotalRaysBudget B \<longrightarrow> TotalRaysUsed B2 \<le> TotalRaysBudget B"
  proof
    assume "TotalRaysUsed B \<le> TotalRaysBudget B"
    then have "TotalRaysUsed B1 \<le> TotalRaysBudget B1" using st(1) st(3) by auto
    then show "TotalRaysUsed B2 \<le> TotalRaysBudget B" using ih st(1) by simp
  qed
  have cast: "0 \<le> AdvancedReflectionRays St \<and> 0 \<le> HeroReflectionRays St
        \<longrightarrow> TotalRaysUsed B + int (sum_list (map snd ((k, n) # Cs2))) \<le> TotalRaysUsed B2"
  proof
    assume nn: "0 \<le> AdvancedReflectionRays St \<and> 0 \<le> HeroReflectionRays St"
    then have N: "0 \<le> RaysForLOD St (EffectiveLOD e)" by (simp add: RaysForLOD_def)
    have "TotalRaysUsed B + int n \<le> TotalRaysUsed B1" using st(3) N by auto
    moreover have "TotalRaysUsed B1 + int (sum_list (map snd Cs2)) \<le> TotalRaysUsed B2"
      using ih nn by simp
    ultimately show "TotalRaysUsed B + int (sum_list (map snd ((k, n) # Cs2))) \<le> TotalRaysUsed B2"
      by simp
  qed
  have n: "n = 0 \<or> n = nat (RaysForLOD St (EffectiveLOD e1))"
    using st(2) st(3) by auto
  show ?case
    unfolding eq using bud le cast ih st(2) n by (simp add: p)
qed

lemma UpdateSourcePriorities_budget:
  "CurrentBudget (UpdateSourcePriorities H St S) = CurrentBudget S"
  by (simp add: UpdateSourcePriorities_def Let_def split: prod.splits)

lemma UpdateSourcePriorities_listeners:
  "ListenerDataArray (UpdateSourcePriorities H St S) = ListenerDataArray S"
  by (simp add: UpdateSourcePriorities_def Let_def split: prod.splits)

lemma ProcessOcclusion_budget:
  assumes "ProcessOcclusion H St t S = (S', Rays)"
  shows "TotalRaysBudget (CurrentBudget S') = TotalRaysBudget (CurrentBudget S)"
    and "TotalRaysUsed (CurrentBudget S') = TotalRaysUsed (CurrentBudget S) + int (length Rays)"
    and "TotalRaysUsed (CurrentBudget S) \<le> TotalRaysBudget (CurrentBudget S)
         \<Longrightarrow> TotalRaysUsed (CurrentBudget S') \<le> TotalRaysBudget (CurrentBudget S')"
proof -
  show "TotalRaysBudget (CurrentBudget S') = TotalRaysBudget (CurrentBudget S)"
    using assms ProcessOcclusion_loop_budget
    by (fastforce simp: ProcessOcclusion_def Let_def split: if_splits prod.splits)
  show "TotalRaysUsed (CurrentBudget S') = TotalRaysUsed (CurrentBudget S) + int (length Rays)"
    using assms ProcessOcclusion_loop_budget
    by (fastforce simp: ProcessOcclusion_def Let_def split: if_splits prod.splits)
  show "TotalRaysUsed (CurrentBudget S) \<le> TotalRaysBudget (CurrentBudget S)
         \<Longrightarrow> TotalRaysUsed (CurrentBudget S') \<le> TotalRaysBudget (CurrentBudget S')"
    using assms ProcessOcclusion_loop_budget
    by (fastforce simp: ProcessOcclusion_def Let_def split: if_splits prod.splits)
qed

lemma ProcessReflections_budget:
  assumes "ProcessReflections H St t S = (S', Cs)"
  shows "TotalRaysBudget (CurrentBudget S') = TotalRaysBudget (CurrentBudget S)"
    and "TotalRaysUsed (CurrentBudget S) \<le> TotalRaysBudget (CurrentBudget S)
         \<Longrightarrow> TotalRaysUsed (CurrentBudget S') \<le> TotalRaysBudget (CurrentBudget S')"
    and "0 \<le> AdvancedReflectionRays St \<Longrightarrow> 0 \<le> HeroReflectionRays St
         \<Longrightarrow> TotalRaysUsed (CurrentBudget S) + int (sum_list (map snd Cs))
              \<le> TotalRaysUsed (CurrentBudget S')"
    and "list_all2 (\<lambda>p c. fst c = fst p
                  \<and> (snd c = 0 \<or> snd c = nat (RaysForLOD St (EffectiveLOD (snd p)))))
           (RegisteredSources S') Cs \<or> Cs = []"
proof -
  show "TotalRaysBudget (CurrentBudget S') = TotalRaysBudget (CurrentBudget S)"
    using assms ProcessReflections_loop_budget
    by (fastforce simp: ProcessReflections_def Let_def split: if_splits prod.splits)
  show "TotalRaysUsed (CurrentBudget S) \<le> TotalRaysBudget (CurrentBudget S)
         \<Longrightarrow> TotalRaysUsed (CurrentBudget S') \<le> TotalRaysBudget (CurrentBudget S')"
    using assms ProcessReflections_loop_budget
    by (fastforce simp: ProcessReflections_def Let_def split: if_splits prod.splits)
  show "0 \<le> AdvancedReflectionRays St \<Longrightarrow> 0 \<le> HeroReflectionRays St
         \<Longrightarrow> TotalRaysUsed (CurrentBudget S) + int (sum_list (map snd Cs))
              \<le> TotalRaysUsed (CurrentBudget S')"
    using assms ProcessReflections_loop_budget
    by (fastforce simp: ProcessReflections_def Let_def split: if_splits prod.splits)
  show "list_all2 (\<lambda>p c. fst c = fst p
                  \<and> (snd c = 0 \<or> snd c = nat (RaysForLOD St (EffectiveLOD (snd p)))))
           (RegisteredSources S') Cs \<or> Cs = []"
    using assms ProcessReflections_loop_budget
    by (fastforce simp: ProcessReflections_def Let_def split: if_splits prod.splits)
qed


lemma UpdateListenerZones_budget:
  "CurrentBudget (UpdateListenerZones S) = CurrentBudget S"
  by (simp add: UpdateListenerZones_def)

lemma ProcessAcousticUpdate_budget:
  assumes pau: "ProcessAcousticUpdate H St t1 t2 dt S = (S', Rays, Casts)"
  shows "TotalRaysBudget (CurrentBudget S') = MaxRaysPerFrame St"
    and "0 \<le> MaxRaysPerFrame St
         \<Longrightarrow> TotalRaysUsed (CurrentBudget S') \<le> TotalRaysBudget (CurrentBudget S')"
    and "0 \<le> AdvancedReflectionRays St \<Longrightarrow> 0 \<le> HeroReflectionRays St
         \<Longrightarrow> int (length Rays) + int (sum_list (map snd Casts))
              \<le> TotalRaysUsed (CurrentBudget S')"
    and "list_all2 (\<lambda>p c. fst c = fst p
                  \<and> (snd c = 0 \<or> snd c = nat (RaysForLOD St (EffectiveLOD (snd p)))))
           (RegisteredSources S') Casts \<or> Casts = []"
proof -
  define S1 where "S1 = S\<lparr> CurrentBudget := \<lparr> OcclusionRays = 0, ReflectionRays = 0,
                           TotalRaysUsed = 0, TotalRaysBudget = MaxRaysPerFrame St \<rparr> \<rparr>
                         \<lparr> OcclusionUpdateAccumulator := OcclusionUpdateAccumulator S + dt,
                           ReflectionUpdateAccumulator := ReflectionUpdateAccumulator S + dt,
                           ZoneUpdateAccumulator := ZoneUpdateAccumulator S + dt \<rparr>"
  define S2 where "S2 = UpdateSourcePriorities H St S1"
  define S3 where "S3 = (if ZoneUpdateRateHz St \<noteq> 0
                            \<and> ZoneUpdateAccumulator S2 \<ge> 1 / ZoneUpdateRateHz St
                         then (UpdateListenerZones S2)\<lparr> ZoneUpdateAccumulator := 0 \<rparr> else S2)"
  define r4 where "r4 = (if OcclusionUpdateRateHz St \<noteq> 0
                            \<and> OcclusionUpdateAccumulator S3 \<ge> 1 / OcclusionUpdateRateHz St
                         then (let (Sa, Ra) = ProcessOcclusion H St t1 S3
                               in (Sa\<lparr> OcclusionUpdateAccumulator := 0 \<rparr>, Ra))
                         else (S3, []))"
  define r5 where "r5 = (if ReflectionUpdateRateHz St \<noteq> 0
                            \<and> ReflectionUpdateAccumulator (fst r4)
                                 \<ge> 1 / ReflectionUpdateRateHz St
                         then (let (Sb, Cb) = ProcessReflections H St t2 (fst r4)
                               in (Sb\<lparr> ReflectionUpdateAccumulator := 0 \<rparr>, Cb))
                         else (fst r4, []))"
  have "ProcessAcousticUpdate H St t1 t2 dt S = (fst r5, snd r4, snd r5)"
    unfolding ProcessAcousticUpdate_def r5_def r4_def S3_def S2_def S1_def
    by (simp add: Let_def split: prod.splits)
  then have S': "S' = fst r5" and Rays: "Rays = snd r4" and Casts: "Casts = snd r5"
    using pau by simp_all
  have b1: "TotalRaysBudget (CurrentBudget S1) = MaxRaysPerFrame St"
    and u1: "TotalRaysUsed (CurrentBudget S1) = 0"
    by (simp_all add: S1_def)
  have b3: "CurrentBudget S3 = CurrentBudget S1"
    by (simp add: S3_def S2_def UpdateSourcePriorities_budget UpdateListenerZones_budget)
  have b4: "TotalRaysBudget (CurrentBudget (fst r4)) = MaxRaysPerFrame St"
    and u4: "TotalRaysUsed (CurrentBudget (fst r4)) = int (length (snd r4))"
  proof -
    obtain Sa Ra where o: "ProcessOcclusion H St t1 S3 = (Sa, Ra)"
      by (cases "ProcessOcclusion H St t1 S3")
    note f = ProcessOcclusion_budget(1,2) [OF o]
    show "TotalRaysBudget (CurrentBudget (fst r4)) = MaxRaysPerFrame St"
      using f b1 b3 by (simp add: r4_def o)
    show "TotalRaysUsed (CurrentBudget (fst r4)) = int (length (snd r4))"
      using f u1 b3 by (simp add: r4_def o)
  qed
  have le4: "0 \<le> MaxRaysPerFrame St
       \<Longrightarrow> TotalRaysUsed (CurrentBudget (fst r4)) \<le> TotalRaysBudget (CurrentBudget (fst r4))"
  proof -
    assume nn: "0 \<le> MaxRaysPerFrame St"
    obtain Sa Ra where o: "ProcessOcclusion H St t1 S3 = (Sa, Ra)"
      by (cases "ProcessOcclusion H St t1 S3")
    have "TotalRaysUsed (CurrentBudget S3) \<le> TotalRaysBudget (CurrentBudget S3)"
      using nn b1 u1 b3 by simp
    from ProcessOcclusion_budget(3) [OF o this] this
    show "TotalRaysUsed (CurrentBudget (fst r4)) \<le> TotalRaysBudget (CurrentBudget (fst r4))"
      by (simp add: r4_def o)
  qed
  obtain Sb Cb where rf: "ProcessReflections H St t2 (fst r4) = (Sb, Cb)"
    by (cases "ProcessReflections H St t2 (fst r4)")
  note g = ProcessReflections_budget [OF rf]
  show "TotalRaysBudget (CurrentBudget S') = MaxRaysPerFrame St"
    unfolding S' using g(1) b4 by (simp add: r5_def rf)
  show "0 \<le> MaxRaysPerFrame St
         \<Longrightarrow> TotalRaysUsed (CurrentBudget S') \<le> TotalRaysBudget (CurrentBudget S')"
    unfolding S' using g(2) le4 by (simp add: r5_def rf)
  show "0 \<le> AdvancedReflectionRays St \<Longrightarrow> 0 \<le> HeroReflectionRays St
         \<Longrightarrow> int (length Rays) + int (sum_list (map snd Casts))
              \<le> TotalRaysUsed (CurrentBudget S')"
    unfolding S' Rays Casts using g(3) u4 by (simp add: r5_def rf)
  show "list_all2 (\<lambda>p c. fst c = fst p
                  \<and> (snd c = 0 \<or> snd c = nat (RaysForLOD St (EffectiveLOD (snd p)))))
           (RegisteredSources S') Casts \<or> Casts = []"
    unfolding S' Casts using g(4) by (auto simp: r5_def rf)
qed

text \<open>
  C1: with settings in their declared ranges (a non-negative budget and non-negative
  reflection ray counts), at the end of every acoustic-update tick \<^verbatim>\<open>TotalRaysUsed\<close> is at
  most \<^verbatim>\<open>TotalRaysBudget\<close>, which is \<^verbatim>\<open>MaxRaysPerFrame\<close>, and the rays cast in the tick (one
  per occlusion trace, plus those of the reflection pass) are no more than
  \<^verbatim>\<open>TotalRaysUsed\<close>; for every source the reflection pass casts either none or the full ray
  count of the source's LOD. The occlusion loop entered with the budget reached traces
  nothing and leaves every entry as it is, and from within the budget it ends within the
  budget, each trace counted once. The reflection step for a source casts either no ray, or
  the full ray count of its LOD and then only if that count fits into the remaining budget.
  Within the declared ranges (a budget of at most 1024 rays, at most 128 rays per source)
  every sum that the passes form on these counters stays far below \<open>2 ^ 31\<close>, where the
  \<^verbatim>\<open>int32\<close> counters of the source and the integers of the model agree.
\<close>

theorem C1_ray_budget:
  assumes "0 \<le> MaxRaysPerFrame St"
      and "0 \<le> AdvancedReflectionRays St" and "0 \<le> HeroReflectionRays St"
      and "ProcessAcousticUpdate H St t1 t2 dt S = (S', Rays, Casts)"
  shows "TotalRaysUsed (CurrentBudget S') \<le> TotalRaysBudget (CurrentBudget S')
    \<and> TotalRaysBudget (CurrentBudget S') = MaxRaysPerFrame St
    \<and> int (length Rays) + int (sum_list (map snd Casts)) \<le> TotalRaysUsed (CurrentBudget S')
    \<and> (Casts = [] \<or>
        list_all2 (\<lambda>p c. fst c = fst p
                     \<and> (snd c = 0 \<or> snd c = nat (RaysForLOD St (EffectiveLOD (snd p)))))
          (RegisteredSources S') Casts)
    \<and> (\<forall>L t Entries B. TotalRaysUsed B \<ge> TotalRaysBudget B \<longrightarrow>
          ProcessOcclusion_loop H St S L t Entries B = (Entries, B, []))
    \<and> (\<forall>L t Entries B Es B1 Rs.
          ProcessOcclusion_loop H St S L t Entries B = (Es, B1, Rs)
          \<and> TotalRaysUsed B \<le> TotalRaysBudget B
          \<longrightarrow> TotalRaysUsed B1 = TotalRaysUsed B + int (length Rs)
              \<and> TotalRaysUsed B1 \<le> TotalRaysBudget B1)
    \<and> (\<forall>Listener t Entry B Entry1 B1 n.
          ReflectionUpdate H St S Listener t Entry B = (Entry1, B1, n)
          \<longrightarrow> n = 0
              \<or> (n = nat (RaysForLOD St (EffectiveLOD Entry))
                  \<and> TotalRaysUsed B + RaysForLOD St (EffectiveLOD Entry) \<le> TotalRaysBudget B
                  \<and> TotalRaysUsed B1 = TotalRaysUsed B + RaysForLOD St (EffectiveLOD Entry)))"
proof -
  note t = ProcessAcousticUpdate_budget [OF assms(4)]
  have a: "TotalRaysUsed (CurrentBudget S') \<le> TotalRaysBudget (CurrentBudget S')"
    by (rule t(2) [OF assms(1)])
  have b: "TotalRaysBudget (CurrentBudget S') = MaxRaysPerFrame St" by (rule t(1))
  have c: "int (length Rays) + int (sum_list (map snd Casts)) \<le> TotalRaysUsed (CurrentBudget S')"
    by (rule t(3) [OF assms(2) assms(3)])
  have d: "Casts = [] \<or>
        list_all2 (\<lambda>p c. fst c = fst p
                     \<and> (snd c = 0 \<or> snd c = nat (RaysForLOD St (EffectiveLOD (snd p)))))
          (RegisteredSources S') Casts"
    using t(4) by blast
  have e: "\<forall>L t Entries B. TotalRaysUsed B \<ge> TotalRaysBudget B \<longrightarrow>
          ProcessOcclusion_loop H St S L t Entries B = (Entries, B, [])"
    by (simp add: ProcessOcclusion_loop_exhausted)
  have f: "\<forall>L t Entries B Es B1 Rs.
          ProcessOcclusion_loop H St S L t Entries B = (Es, B1, Rs)
          \<and> TotalRaysUsed B \<le> TotalRaysBudget B
          \<longrightarrow> TotalRaysUsed B1 = TotalRaysUsed B + int (length Rs)
              \<and> TotalRaysUsed B1 \<le> TotalRaysBudget B1"
    using ProcessOcclusion_loop_budget by fastforce
  have g: "\<forall>Listener t Entry B Entry1 B1 n.
          ReflectionUpdate H St S Listener t Entry B = (Entry1, B1, n)
          \<longrightarrow> n = 0
              \<or> (n = nat (RaysForLOD St (EffectiveLOD Entry))
                  \<and> TotalRaysUsed B + RaysForLOD St (EffectiveLOD Entry) \<le> TotalRaysBudget B
                  \<and> TotalRaysUsed B1 = TotalRaysUsed B + RaysForLOD St (EffectiveLOD Entry))"
    using ReflectionUpdate_step(3) by fastforce
  show ?thesis using a b c d e f g by blast
qed


lemma Example_Registered_accumulators:
  "OcclusionUpdateAccumulator Example_Registered = 0"
  "ReflectionUpdateAccumulator Example_Registered = 0"
  "ZoneUpdateAccumulator Example_Registered = 0"
  by (simp_all add: Example_Registered_def Example_Subsystem_def RegisterSource_def
      Subsystem_init_def Let_def split: option.splits)

lemma Example_tick:
  "snd (ProcessAcousticUpdate (Example_Host Example_Trace_Wall Example_Objects) Example_Budget
          10 10 1 Example_Registered) = ([1, 2], [(1, 32), (2, 0)])"
  by (simp add: ProcessAcousticUpdate_def UpdateSourcePriorities_def Example_Registered_sources
      Example_Registered_listener Example_Registered_accumulators Let_def
      FAcousticListenerData_init_def
      WeakGet_def Example_Host_def Example_Objects_def UAcousticSourceComponent_init_def
      GetAcousticLocation_def Dist_def ZeroVector_def MinDistance_def ComputePriorityScore_def
      ImportanceMultipliers_def
      HasFlag_def AssignLOD_def TMap_Find_def TMap_Set_def Example_Budget_def
      UAcousticSettings_init_def FAcousticSourceEntry_init_def Params_Reset_def
      FAcousticSourceParams_init_def UpdateListenerZones_def ProcessOcclusion_def
      ProcessReflections_def OcclusionStep_def ReflectionUpdate_def SampleReflections_def
      GenerateHemisphereRays_def OcclusionUpdate_def TraceOcclusion_def Example_Trace_Wall_def
      split: prod.splits)


text \<open>A tick with a budget of 40 rays over the two example sources in front of the wall: two
  occlusion traces, the hero source's 32 reflection rays, and none of the advanced source's
  24, which no longer fit; the occlusion loop entered with the budget used up; and the
  reflection step for an advanced source when 34 of the 40 rays are used.\<close>

theorem C1_ray_budget_witness:
  "0 \<le> MaxRaysPerFrame Example_Budget
   \<and> 0 \<le> AdvancedReflectionRays Example_Budget
   \<and> 0 \<le> HeroReflectionRays Example_Budget
   \<and> snd (ProcessAcousticUpdate (Example_Host Example_Trace_Wall Example_Objects) Example_Budget
          10 10 1 Example_Registered) = ([1, 2], [(1, 32), (2, 0)])
   \<and> TotalRaysUsed (CurrentBudget (fst (ProcessAcousticUpdate
          (Example_Host Example_Trace_Wall Example_Objects) Example_Budget 10 10 1
          Example_Registered))) \<le> 40
   \<and> 34 \<le> TotalRaysUsed (CurrentBudget (fst (ProcessAcousticUpdate
          (Example_Host Example_Trace_Wall Example_Objects) Example_Budget 10 10 1
          Example_Registered)))
   \<and> ProcessOcclusion_loop (Example_Host Example_Trace_Wall Example_Objects) Example_Budget
        Example_Registered ZeroVector 10 (RegisteredSources Example_Registered)
        \<lparr> OcclusionRays = 0, ReflectionRays = 40, TotalRaysUsed = 40, TotalRaysBudget = 40 \<rparr>
       = (RegisteredSources Example_Registered,
          \<lparr> OcclusionRays = 0, ReflectionRays = 40, TotalRaysUsed = 40, TotalRaysBudget = 40 \<rparr>,
          [])
   \<and> snd (snd (ReflectionUpdate (Example_Host Example_Trace_Wall Example_Objects)
          Example_Budget Example_Registered FAcousticListenerData_init 10
          (FAcousticSourceEntry_init\<lparr> SourceComponent := Some 2, EffectiveLOD := Advanced \<rparr>)
          \<lparr> OcclusionRays = 2, ReflectionRays = 32, TotalRaysUsed = 34,
            TotalRaysBudget = 40 \<rparr>)) = 0"
proof -
  let ?H = "Example_Host Example_Trace_Wall Example_Objects"
  let ?r = "ProcessAcousticUpdate ?H Example_Budget 10 10 1 Example_Registered"
  have h1: "0 \<le> MaxRaysPerFrame Example_Budget"
    and h2: "0 \<le> AdvancedReflectionRays Example_Budget"
    and h3: "0 \<le> HeroReflectionRays Example_Budget"
    and m: "MaxRaysPerFrame Example_Budget = 40"
    by (simp_all add: Example_Budget_def UAcousticSettings_init_def)
  have pau: "?r = (fst ?r, [1, 2], [(1, 32), (2, 0)])"
    using Example_tick by (simp add: prod_eq_iff)
  note t = C1_ray_budget [OF h1 h2 h3 pau]
  have a0: "TotalRaysUsed (CurrentBudget (fst ?r)) \<le> TotalRaysBudget (CurrentBudget (fst ?r))"
    by (rule t [THEN conjunct1])
  have b0: "TotalRaysBudget (CurrentBudget (fst ?r)) = MaxRaysPerFrame Example_Budget"
    by (rule t [THEN conjunct2, THEN conjunct1])
  have c0: "int (length [1, 2 :: int]) + int (sum_list (map snd [(1 :: int, 32 :: nat), (2, 0)]))
              \<le> TotalRaysUsed (CurrentBudget (fst ?r))"
    by (rule t [THEN conjunct2, THEN conjunct2, THEN conjunct1])
  have e0: "\<forall>L t Entries B. TotalRaysUsed B \<ge> TotalRaysBudget B \<longrightarrow>
          ProcessOcclusion_loop ?H Example_Budget Example_Registered L t Entries B
            = (Entries, B, [])"
    by (rule t [THEN conjunct2, THEN conjunct2, THEN conjunct2, THEN conjunct2, THEN conjunct1])
  have a: "TotalRaysUsed (CurrentBudget (fst ?r)) \<le> 40" using a0 b0 m by simp
  have b: "34 \<le> TotalRaysUsed (CurrentBudget (fst ?r))" using c0 by simp
  have c: "ProcessOcclusion_loop ?H Example_Budget Example_Registered ZeroVector 10
             (RegisteredSources Example_Registered)
             \<lparr> OcclusionRays = 0, ReflectionRays = 40, TotalRaysUsed = 40, TotalRaysBudget = 40 \<rparr>
       = (RegisteredSources Example_Registered,
          \<lparr> OcclusionRays = 0, ReflectionRays = 40, TotalRaysUsed = 40, TotalRaysBudget = 40 \<rparr>,
          [])"
    using e0 [rule_format, of "\<lparr> OcclusionRays = 0, ReflectionRays = 40, TotalRaysUsed = 40,
                                 TotalRaysBudget = 40 \<rparr>" ZeroVector 10
                               "RegisteredSources Example_Registered"]
    by simp
  let ?E = "FAcousticSourceEntry_init\<lparr> SourceComponent := Some 2, EffectiveLOD := Advanced \<rparr>"
  let ?B = "\<lparr> OcclusionRays = 2, ReflectionRays = 32, TotalRaysUsed = 34,
             TotalRaysBudget = 40 \<rparr>"
  let ?u = "ReflectionUpdate ?H Example_Budget Example_Registered FAcousticListenerData_init
              10 ?E ?B"
  have g0: "\<forall>Listener t Entry B Entry1 B1 n.
          ReflectionUpdate ?H Example_Budget Example_Registered Listener t Entry B
            = (Entry1, B1, n)
          \<longrightarrow> n = 0
              \<or> (n = nat (RaysForLOD Example_Budget (EffectiveLOD Entry))
                  \<and> TotalRaysUsed B + RaysForLOD Example_Budget (EffectiveLOD Entry)
                       \<le> TotalRaysBudget B
                  \<and> TotalRaysUsed B1
                       = TotalRaysUsed B + RaysForLOD Example_Budget (EffectiveLOD Entry))"
    by (rule t [THEN conjunct2, THEN conjunct2, THEN conjunct2, THEN conjunct2, THEN conjunct2,
                THEN conjunct2])
  have u: "?u = (fst ?u, fst (snd ?u), snd (snd ?u))" by simp
  have rays: "RaysForLOD Example_Budget (EffectiveLOD ?E) = 24"
    by (simp add: RaysForLOD_def Example_Budget_def UAcousticSettings_init_def)
  have d: "snd (snd ?u) = 0"
    using g0 [rule_format, OF u] unfolding rays by simp
  show ?thesis using h1 h2 h3 Example_tick a b c d by blast
qed

end
